theory Spec2Isabelle
  imports Complex_Main
begin

section \<open>The SPM residual function and the bandwidth analyzer of bmlite\<close>

text \<open>
  This theory embeds \<^verbatim>\<open>src/bmlite/SPM/dae.py\<close>: the function \<^verbatim>\<open>residuals\<close>, which
  writes the residual vector of the single-particle model into a buffer, and the function
  \<^verbatim>\<open>bandwidth\<close>, which probes \<^verbatim>\<open>residuals\<close> by finite differences.

  Conventions of the embedding:
  \<^item> a floating-point number is a \<^typ>\<open>real\<close>: rounding, infinities and NaN are not
    represented, and a numpy division by zero (which yields \<open>inf\<close> or \<open>nan\<close> with a
    warning, not an exception) is HOL's division;
  \<^item> a one-dimensional numpy array is a \<^typ>\<open>real list\<close>; a scalar handed to an array
    operation behaves like an array of length one;
  \<^item> the arrays \<^verbatim>\<open>sv\<close>, \<^verbatim>\<open>svdot\<close> and \<^verbatim>\<open>res\<close> are passed by reference, so they live
    in a memory of arrays and are named by their addresses; two arguments may be the same
    array. The simulation object and the experiment dictionary of \<^verbatim>\<open>inputs\<close> are objects
    of the same memory;
  \<^item> an exception is a value of type \<open>error\<close>; a raising call returns the memory as the
    exception leaves it;
  \<^item> the classes \<^verbatim>\<open>Constants\<close>, the domain classes and the helpers \<^verbatim>\<open>grad_r\<close> and
    \<^verbatim>\<open>div_r\<close> of \<^verbatim>\<open>bmlite.math\<close> are not part of the files embedded here; the constants,
    the domain parameters, the material functions and the two helpers are parameters of the
    model (fields of the records below), taken as total functions;
  \<^item> the entries of the index maps \<^verbatim>\<open>ptr\<close> are natural numbers and \<^verbatim>\<open>r_ptr['Li_ed']\<close>
    is an array of indices.
\<close>

subsection \<open>Exceptions\<close>

datatype error = KeyError | IndexError | ValueError | ZeroDivisionError

subsection \<open>Arrays\<close>

text \<open>\<^verbatim>\<open>xs[i]\<close> for an index \<open>i \<ge> 0\<close>.\<close>

definition getitem :: "real list \<Rightarrow> nat \<Rightarrow> error + real" where
  "getitem xs i = (if i < length xs then Inr (xs ! i) else Inl IndexError)"

text \<open>\<^verbatim>\<open>xs[idx]\<close> for an index array: a new array.\<close>

definition getitems :: "real list \<Rightarrow> nat list \<Rightarrow> error + real list" where
  "getitems xs idx =
     (if list_all (\<lambda>i. i < length xs) idx then Inr (map (\<lambda>i. xs ! i) idx)
      else Inl IndexError)"

text \<open>\<^verbatim>\<open>xs[-1]\<close>.\<close>

definition last_item :: "real list \<Rightarrow> error + real" where
  "last_item xs = (if xs = [] then Inl IndexError else Inr (last xs))"

text \<open>
  An elementwise binary operation of two one-dimensional arrays with numpy's broadcasting:
  the lengths agree, or one of them is one.
\<close>

definition broadcast :: "(real \<Rightarrow> real \<Rightarrow> real) \<Rightarrow> real list \<Rightarrow> real list \<Rightarrow> error + real list" where
  "broadcast f xs ys =
     (if length xs = length ys then Inr (map2 f xs ys)
      else if length xs = 1 then Inr (map (\<lambda>y. f (hd xs) y) ys)
      else if length ys = 1 then Inr (map (\<lambda>x. f x (hd ys)) xs)
      else Inl ValueError)"

text \<open>A scalar times an array.\<close>

definition scale :: "real \<Rightarrow> real list \<Rightarrow> real list" where
  "scale a xs = map (\<lambda>x. a * x) xs"

text \<open>\<^verbatim>\<open>xs[i] = v\<close>.\<close>

definition setitem :: "real list \<Rightarrow> nat \<Rightarrow> real \<Rightarrow> error + real list" where
  "setitem xs i v = (if i < length xs then Inr (xs[i := v]) else Inl IndexError)"

text \<open>
  \<^verbatim>\<open>xs[idx] = vs\<close> for an index array: the values are assigned in order, so the last one
  wins at a repeated index; an array of values of length one is broadcast. The indices are
  checked before the shape of the values.
\<close>

fun assign :: "(nat \<times> real) list \<Rightarrow> real list \<Rightarrow> real list" where
  "assign [] xs = xs"
| "assign ((i, v) # ivs) xs = assign ivs (xs[i := v])"

definition setitems :: "real list \<Rightarrow> nat list \<Rightarrow> real list \<Rightarrow> error + real list" where
  "setitems xs idx vs =
     (if \<not> list_all (\<lambda>i. i < length xs) idx then Inl IndexError
      else if length vs = length idx then Inr (assign (zip idx vs) xs)
      else if length vs = 1 then Inr (assign (map (\<lambda>i. (i, hd vs)) idx) xs)
      else Inl ValueError)"

subsection \<open>The simulation object and the experiment\<close>

record constants =
  c_F :: real
  c_R :: real

record battery =
  temp :: real
  area :: real
  cap :: real

record electrolyte =
  ptr_phi_el :: nat
  Li_0 :: real

record electrode =
  ptr_phi_ed :: nat
  r_ptr_Li_ed :: "nat list"
  Li_max :: real
  alpha_a :: real
  alpha_c :: real
  A_s :: real
  thick :: real
  ed_r :: "real list"
  ed_rm :: "real list"
  ed_rp :: "real list"
  get_Eeq :: "real \<Rightarrow> real \<Rightarrow> real"
  get_i0 :: "real \<Rightarrow> real \<Rightarrow> real \<Rightarrow> real"
  get_Ds :: "real list \<Rightarrow> real \<Rightarrow> real list"

record simulation =
  sim_bat :: battery
  sim_el :: electrolyte
  sim_an :: electrode
  sim_ca :: electrode
  sim_t0 :: real
  flag_post :: bool
  sim_sv0 :: "real list"
  sim_svdot0 :: "real list"

text \<open>
  The module-level names \<^verbatim>\<open>residuals\<close> imports: the constants and the two radial operators.
\<close>

record environment =
  env_c :: constants
  grad_r :: "real list \<Rightarrow> real list \<Rightarrow> real list"
  div_r :: "real list \<Rightarrow> real list \<Rightarrow> real list \<Rightarrow> real list"

text \<open>
  The experiment is a dictionary: a key may be missing. The value of \<^verbatim>\<open>'events'\<close> is a
  dictionary of numbers, kept in the order of its keys.
\<close>

record exp_dict =
  exp_mode :: "string option"
  exp_units :: "string option"
  exp_value :: "(real \<Rightarrow> real) option"
  exp_events :: "(string \<times> real) list option"

subsection \<open>Memory and statements\<close>

record memory =
  arrays :: "nat \<Rightarrow> real list"
  sim_obj :: simulation
  expt :: exp_dict

type_synonym 'a stmt = "memory \<Rightarrow> memory \<times> (error + 'a)"

definition ret :: "'a \<Rightarrow> 'a stmt" where
  "ret x = (\<lambda>s. (s, Inr x))"

definition lift :: "error + 'a \<Rightarrow> 'a stmt" where
  "lift r = (\<lambda>s. (s, r))"

definition next_do :: "'a stmt \<Rightarrow> ('a \<Rightarrow> 'b stmt) \<Rightarrow> 'b stmt" where
  "next_do m f = (\<lambda>s. case m s of (s', Inl e) \<Rightarrow> (s', Inl e) | (s', Inr x) \<Rightarrow> f x s')"

definition load :: "nat \<Rightarrow> nat \<Rightarrow> real stmt" where
  "load a i = (\<lambda>s. (s, getitem (arrays s a) i))"

definition load_items :: "nat \<Rightarrow> nat list \<Rightarrow> real list stmt" where
  "load_items a idx = (\<lambda>s. (s, getitems (arrays s a) idx))"

definition store :: "nat \<Rightarrow> nat \<Rightarrow> real \<Rightarrow> unit stmt" where
  "store a i v = (\<lambda>s. case setitem (arrays s a) i v of
       Inl e \<Rightarrow> (s, Inl e)
     | Inr xs \<Rightarrow> (s\<lparr>arrays := (arrays s)(a := xs)\<rparr>, Inr ()))"

definition store_items :: "nat \<Rightarrow> nat list \<Rightarrow> real list \<Rightarrow> unit stmt" where
  "store_items a idx vs = (\<lambda>s. case setitems (arrays s a) idx vs of
       Inl e \<Rightarrow> (s, Inl e)
     | Inr xs \<Rightarrow> (s\<lparr>arrays := (arrays s)(a := xs)\<rparr>, Inr ()))"

text \<open>\<^verbatim>\<open>exp[key]\<close>.\<close>

definition lookup :: "(exp_dict \<Rightarrow> 'a option) \<Rightarrow> 'a stmt" where
  "lookup key = (\<lambda>s. case key (expt s) of None \<Rightarrow> (s, Inl KeyError) | Some v \<Rightarrow> (s, Inr v))"

text \<open>\<^verbatim>\<open>exp['events'] = ev\<close>.\<close>

definition set_events :: "(string \<times> real) list \<Rightarrow> unit stmt" where
  "set_events ev = (\<lambda>s. (s\<lparr>expt := (expt s)\<lparr>exp_events := Some ev\<rparr>\<rparr>, Inr ()))"

text \<open>
  A division of two Python floats: the applied value and the battery's area and capacity are
  Python numbers, as the \<^verbatim>\<open>lambda t: 0.\<close> of \<^verbatim>\<open>bandwidth\<close> is.
\<close>

definition py_div :: "real \<Rightarrow> real \<Rightarrow> error + real" where
  "py_div x y = (if y = 0 then Inl ZeroDivisionError else Inr (x / y))"

definition bind_e :: "error + 'a \<Rightarrow> ('a \<Rightarrow> error + 'b) \<Rightarrow> error + 'b" where
  "bind_e m f = (case m of Inl e \<Rightarrow> Inl e | Inr x \<Rightarrow> f x)"

subsection \<open>\<^verbatim>\<open>residuals\<close>\<close>

text \<open>
  The reaction current of one electrode (the lines under \<^verbatim>\<open># Reaction current\<close>, the same
  for the anode and the cathode): the Li+ production rate \<^verbatim>\<open>sdot\<close>. The surface value
  \<^verbatim>\<open>xs[-1]\<close> raises on an empty array.
\<close>

definition reaction_current ::
  "constants \<Rightarrow> electrode \<Rightarrow> electrolyte \<Rightarrow> real \<Rightarrow> real \<Rightarrow> real \<Rightarrow> real list \<Rightarrow> error + real" where
  "reaction_current c ed el T phi_ed phi_el xs =
     bind_e (last_item xs) (\<lambda>x_s.
       let eta = phi_ed - phi_el - get_Eeq ed x_s T;
           i0 = get_i0 ed x_s (Li_0 el) T
       in Inr (i0 / c_F c * (exp (alpha_a ed * c_F c * eta / c_R c / T)
                            - exp (- alpha_c ed * c_F c * eta / c_R c / T))))"

text \<open>
  The weighted solid particle properties and the flux vector \<^verbatim>\<open>Js\<close> of one electrode
  (the lines under \<^verbatim>\<open># Weighted solid particle properties\<close> and the \<^verbatim>\<open>np.concat\<close>).
\<close>

definition radial_flux ::
  "environment \<Rightarrow> electrode \<Rightarrow> real \<Rightarrow> real list \<Rightarrow> real list \<Rightarrow> real \<Rightarrow> error + real list" where
  "radial_flux im ed T xs Li sdot =
     bind_e (broadcast (-) (butlast (ed_rp ed)) (butlast (ed_rm ed))) (\<lambda>dm.
     bind_e (broadcast (-) (tl (ed_r ed)) (butlast (ed_r ed))) (\<lambda>dr.
     bind_e (broadcast (/) (scale 0.5 dm) dr) (\<lambda>wt_m.
     bind_e (broadcast (-) (tl (ed_rp ed)) (tl (ed_rm ed))) (\<lambda>dp.
     bind_e (broadcast (/) (scale 0.5 dp) dr) (\<lambda>wt_p.
     bind_e (broadcast (*) wt_m (get_Ds ed (butlast xs) T)) (\<lambda>Dm.
     bind_e (broadcast (*) wt_p (get_Ds ed (tl xs) T)) (\<lambda>Dp.
     bind_e (broadcast (+) Dm Dp) (\<lambda>Ds.
     bind_e (broadcast (*) Ds (grad_r im (ed_r ed) Li)) (\<lambda>J.
     Inr ([0] @ J @ [- sdot]))))))))))"

text \<open>
  The solid-phase conservation of mass of one electrode: the assignment to
  \<^verbatim>\<open>res[ed.r_ptr['Li_ed']]\<close>.
\<close>

definition solid_com :: "environment \<Rightarrow> electrode \<Rightarrow> nat \<Rightarrow> nat \<Rightarrow> real list \<Rightarrow> unit stmt" where
  "solid_com im ed svdot res Js =
     next_do (load_items svdot (r_ptr_Li_ed ed)) (\<lambda>xdot.
     next_do (lift (broadcast (-) (scale (Li_max ed) xdot) (div_r im (ed_rm ed) (ed_rp ed) Js))) (\<lambda>rhs.
     store_items res (r_ptr_Li_ed ed) rhs))"

text \<open>
  The body of \<^verbatim>\<open>residuals\<close> from \<^verbatim>\<open># Organize values from sv\<close> to the end of the cathode
  section: it hands \<^verbatim>\<open>phi_ca\<close>, \<^verbatim>\<open>sdot_an\<close> and \<^verbatim>\<open>sdot_ca\<close> to the rest of the body.
\<close>

definition electrodes :: "environment \<Rightarrow> nat \<Rightarrow> nat \<Rightarrow> nat \<Rightarrow> (real \<times> real \<times> real) stmt" where
  "electrodes im sv svdot res = (\<lambda>s.
     (let sim = sim_obj s;
          c = env_c im;
          bat = sim_bat sim; el = sim_el sim; an = sim_an sim; ca = sim_ca sim;
          T = temp bat
      in
      next_do (load sv (ptr_phi_ed an)) (\<lambda>phi_an.
      next_do (load sv (ptr_phi_el el)) (\<lambda>phi_el.
      next_do (load sv (ptr_phi_ed ca)) (\<lambda>phi_ca.
      next_do (load_items sv (r_ptr_Li_ed an)) (\<lambda>xs_an.
      next_do (load_items sv (r_ptr_Li_ed ca)) (\<lambda>xs_ca.
      let Li_an = scale (Li_max an) xs_an;
          Li_ca = scale (Li_max ca) xs_ca
      in
      next_do (lift (reaction_current c an el T phi_an phi_el xs_an)) (\<lambda>sdot_an.
      next_do (lift (radial_flux im an T xs_an Li_an sdot_an)) (\<lambda>Js_an.
      next_do (solid_com im an svdot res Js_an) (\<lambda>_.
      next_do (store res (ptr_phi_ed an) (phi_an - 0)) (\<lambda>_.
      next_do (lift (reaction_current c ca el T phi_ca phi_el xs_ca)) (\<lambda>sdot_ca.
      next_do (lift (radial_flux im ca T xs_ca Li_ca sdot_ca)) (\<lambda>Js_ca.
      next_do (solid_com im ca svdot res Js_ca) (\<lambda>_.
      ret (phi_ca, sdot_an, sdot_ca)))))))))))))) s)"

text \<open>
  The lines from \<^verbatim>\<open># External current\<close> to the end of the \<^verbatim>\<open>if\<close>/\<open>elif\<close> chain over
  \<^verbatim>\<open>mode\<close> and \<^verbatim>\<open>units\<close>; the chain has no \<^verbatim>\<open>else\<close>. They hand \<^verbatim>\<open>current_A\<close>,
  \<^verbatim>\<open>voltage_V\<close> and \<^verbatim>\<open>power_W\<close> to the events.
\<close>

definition boundary_conditions ::
  "environment \<Rightarrow> real \<Rightarrow> nat \<Rightarrow> real \<Rightarrow> real \<Rightarrow> real \<Rightarrow> (real \<times> real \<times> real) stmt" where
  "boundary_conditions im t res phi_ca sdot_an sdot_ca = (\<lambda>s.
     (let sim = sim_obj s;
          c = env_c im;
          bat = sim_bat sim; el = sim_el sim; an = sim_an sim; ca = sim_ca sim;
          i_ext = - sdot_an * A_s an * thick an * c_F c
      in
      next_do (lookup exp_mode) (\<lambda>mode.
      next_do (lookup exp_units) (\<lambda>units.
      next_do (lookup exp_value) (\<lambda>val.
      let voltage_V = phi_ca;
          current_A = i_ext * area bat;
          power_W = current_A * voltage_V
      in
      next_do
        (if mode = ''current'' \<and> units = ''A'' then
           next_do (lift (py_div (val t) (area bat))) (\<lambda>q.
           next_do (store res (ptr_phi_ed ca) (sdot_ca * A_s ca * thick ca * c_F c - q)) (\<lambda>_.
           next_do (lift (py_div (val t) (area bat))) (\<lambda>q.
           store res (ptr_phi_el el) (sdot_an * A_s an * thick an * c_F c + q))))
         else if mode = ''current'' \<and> units = ''C'' then
           next_do (lift (py_div (val t * cap bat) (area bat))) (\<lambda>q.
           next_do (store res (ptr_phi_ed ca) (sdot_ca * A_s ca * thick ca * c_F c - q)) (\<lambda>_.
           next_do (lift (py_div (val t * cap bat) (area bat))) (\<lambda>q.
           store res (ptr_phi_el el) (sdot_an * A_s an * thick an * c_F c + q))))
         else if mode = ''voltage'' then
           next_do (store res (ptr_phi_ed ca) (voltage_V - val t)) (\<lambda>_.
           store res (ptr_phi_el el) (sdot_an * A_s an * thick an + sdot_ca * A_s ca * thick ca))
         else if mode = ''power'' then
           next_do (store res (ptr_phi_ed ca) (power_W - val t)) (\<lambda>_.
           store res (ptr_phi_el el) (sdot_an * A_s an * thick an + sdot_ca * A_s ca * thick ca))
         else ret ())
        (\<lambda>_. ret (current_A, voltage_V, power_W))))) s))"

text \<open>The lines under \<^verbatim>\<open># Events tracking\<close>.\<close>

definition events_tracking :: "real \<Rightarrow> real \<Rightarrow> real \<Rightarrow> real \<Rightarrow> unit stmt" where
  "events_tracking t current_A voltage_V power_W = (\<lambda>s.
     (let sim = sim_obj s;
          bat = sim_bat sim;
          total_time = sim_t0 sim + t
      in
      set_events
        [(''time_s'', total_time),
         (''time_min'', total_time / 60),
         (''time_h'', total_time / 3600),
         (''current_A'', current_A),
         (''current_C'', current_A / cap bat),
         (''voltage_V'', voltage_V),
         (''power_W'', power_W)]) s)"

text \<open>
  The lines under \<^verbatim>\<open># Returns\<close>: the pair \<^verbatim>\<open>(sdot_an, sdot_ca)\<close> when
  \<^verbatim>\<open>sim._flags['post']\<close> is set, \<^verbatim>\<open>None\<close> otherwise.
\<close>

definition returns :: "real \<Rightarrow> real \<Rightarrow> (real \<times> real) option stmt" where
  "returns sdot_an sdot_ca = (\<lambda>s.
     if flag_post (sim_obj s) then ret (Some (sdot_an, sdot_ca)) s else ret None s)"

text \<open>
  \<^verbatim>\<open>residuals(t, sv, svdot, res, (sim, exp))\<close>: \<open>sv\<close>, \<open>svdot\<close> and \<open>res\<close> are the
  addresses of the three arrays; the simulation and the experiment are those of the memory.
\<close>

definition residuals :: "environment \<Rightarrow> real \<Rightarrow> nat \<Rightarrow> nat \<Rightarrow> nat \<Rightarrow> (real \<times> real) option stmt" where
  "residuals im t sv svdot res =
     next_do (electrodes im sv svdot res) (\<lambda>(phi_ca, sdot_an, sdot_ca).
     next_do (boundary_conditions im t res phi_ca sdot_an sdot_ca) (\<lambda>(current_A, voltage_V, power_W).
     next_do (events_tracking t current_A voltage_V power_W) (\<lambda>_.
     returns sdot_an sdot_ca)))"

subsection \<open>\<^verbatim>\<open>bandwidth\<close>\<close>

text \<open>The ``fake OCV experiment'' of \<^verbatim>\<open>bandwidth\<close>.\<close>

definition expr :: exp_dict where
  "expr = \<lparr>exp_mode = Some ''current'', exp_units = Some ''C'',
           exp_value = Some (\<lambda>t. 0), exp_events = None\<rparr>"

text \<open>
  A call of \<^verbatim>\<open>residuals\<close> from \<^verbatim>\<open>bandwidth\<close>: the three arrays are fresh copies, hence
  three different arrays, here at the addresses 0, 1 and 2 of a memory of their own. The call
  hands back the array \<^verbatim>\<open>res\<close> and the experiment as it leaves them; an exception leaves
  \<^verbatim>\<open>bandwidth\<close>.
\<close>

definition call_residuals ::
  "environment \<Rightarrow> real \<Rightarrow> real list \<Rightarrow> real list \<Rightarrow> real list \<Rightarrow> simulation \<Rightarrow> exp_dict
     \<Rightarrow> error + (real list \<times> exp_dict)" where
  "call_residuals im t sv svdot res sim e =
     (case residuals im t 0 1 2
             \<lparr>arrays = (\<lambda>a. [])(0 := sv, 1 := svdot, 2 := res),
              sim_obj = sim, expt = e\<rparr> of
        (s', Inl err) \<Rightarrow> Inl err
      | (s', Inr out) \<Rightarrow> Inr (arrays s' 2, expt s'))"

text \<open>
  \<^verbatim>\<open>d = np.copy(xs); d[j] = xs[j] + max(1e-6, 1e-6*xs[j])\<close>: the perturbed copy of the
  two loops.
\<close>

definition perturbed :: "real list \<Rightarrow> nat \<Rightarrow> error + real list" where
  "perturbed xs j =
     bind_e (getitem xs j) (\<lambda>x. setitem xs j (x + max (1 / 10 ^ 6) (1 / 10 ^ 6 * x)))"

text \<open>\<^verbatim>\<open>jac[:, j] = dres\<close> and \<^verbatim>\<open>jac[:, j] += dres\<close>, the matrix being a list of rows.\<close>

definition column :: "real list list \<Rightarrow> nat \<Rightarrow> error + real list" where
  "column jac j =
     (if list_all (\<lambda>row. j < length row) jac then Inr (map (\<lambda>row. row ! j) jac)
      else Inl IndexError)"

definition set_column :: "real list list \<Rightarrow> nat \<Rightarrow> real list \<Rightarrow> error + real list list" where
  "set_column jac j vs =
     (if \<not> list_all (\<lambda>row. j < length row) jac then Inl IndexError
      else if length vs = length jac then Inr (map2 (\<lambda>row v. row[j := v]) jac vs)
      else if length vs = 1 then Inr (map (\<lambda>row. row[j := hd vs]) jac)
      else Inl ValueError)"

definition add_column :: "real list list \<Rightarrow> nat \<Rightarrow> real list \<Rightarrow> error + real list list" where
  "add_column jac j vs =
     bind_e (column jac j) (\<lambda>col.
     bind_e (broadcast (+) col vs) (\<lambda>new.
     set_column jac j new))"

text \<open>
  The first loop: \<^verbatim>\<open>for j in range(N)\<close> over the perturbed \<^verbatim>\<open>sv\<close>. The loop state is the
  array \<^verbatim>\<open>res\<close>, the experiment and \<^verbatim>\<open>jac\<close>.
\<close>

fun probe_sv ::
  "environment \<Rightarrow> simulation \<Rightarrow> real list \<Rightarrow> real list \<Rightarrow> real list \<Rightarrow> nat list
     \<Rightarrow> real list \<times> exp_dict \<times> real list list \<Rightarrow> error + (real list \<times> exp_dict \<times> real list list)" where
  "probe_sv im sim sv svdot res_0 [] st = Inr st"
| "probe_sv im sim sv svdot res_0 (j # js) (res, e, jac) =
     bind_e (perturbed sv j) (\<lambda>dsv.
     bind_e (call_residuals im 0 dsv svdot res sim e) (\<lambda>(res', e').
     bind_e (broadcast (-) res_0 res') (\<lambda>dres.
     bind_e (set_column jac j dres) (\<lambda>jac'.
     probe_sv im sim sv svdot res_0 js (res', e', jac')))))"

text \<open>The second loop: \<^verbatim>\<open>for j in range(N)\<close> over the perturbed \<^verbatim>\<open>svdot\<close>.\<close>

fun probe_svdot ::
  "environment \<Rightarrow> simulation \<Rightarrow> real list \<Rightarrow> real list \<Rightarrow> real list \<Rightarrow> nat list
     \<Rightarrow> real list \<times> exp_dict \<times> real list list \<Rightarrow> error + (real list \<times> exp_dict \<times> real list list)" where
  "probe_svdot im sim sv svdot res_0 [] st = Inr st"
| "probe_svdot im sim sv svdot res_0 (j # js) (res, e, jac) =
     bind_e (perturbed svdot j) (\<lambda>dsvdot.
     bind_e (call_residuals im 0 sv dsvdot res sim e) (\<lambda>(res', e').
     bind_e (broadcast (-) res_0 res') (\<lambda>dres.
     bind_e (add_column jac j dres) (\<lambda>jac'.
     probe_svdot im sim sv svdot res_0 js (res', e', jac')))))"

text \<open>
  The body of \<^verbatim>\<open>bandwidth\<close> down to the end of the second loop: the probed Jacobian
  \<^verbatim>\<open>jac\<close>.
\<close>

definition jacobian :: "environment \<Rightarrow> simulation \<Rightarrow> error + real list list" where
  "jacobian im sim =
     (let N = length (sim_sv0 sim);
          jac = replicate N (replicate N 0);
          sv = sim_sv0 sim;
          svdot = sim_svdot0 sim;
          res = replicate (length sv) 0
      in
      bind_e (call_residuals im 0 sv svdot res sim expr) (\<lambda>(res, e).
      let res_0 = res in
      bind_e (probe_sv im sim sv svdot res_0 [0..<N] (res, e, jac)) (\<lambda>(res, e, jac).
      bind_e (probe_svdot im sim sv svdot res_0 [0..<N] (res, e, jac)) (\<lambda>(res, e, jac).
      Inr jac))))"

text \<open>\<^verbatim>\<open>np.where(abs(xs) > 0)[0]\<close>.\<close>

definition where_nonzero :: "real list \<Rightarrow> nat list" where
  "where_nonzero xs = filter (\<lambda>k. \<bar>xs ! k\<bar> > 0) [0..<length xs]"

text \<open>The loop \<^verbatim>\<open>for i in range(jac.shape[0])\<close> that finds \<^verbatim>\<open>lband\<close> and \<^verbatim>\<open>uband\<close>.\<close>

fun find_bands :: "real list list \<Rightarrow> nat list \<Rightarrow> nat \<times> nat \<Rightarrow> nat \<times> nat" where
  "find_bands jac [] (lband, uband) = (lband, uband)"
| "find_bands jac (i # is) (lband, uband) =
     (let l_inds = where_nonzero (take i (jac ! i));
          lband' = (if length l_inds \<ge> 1 \<and> i - hd l_inds > lband then i - hd l_inds else lband);
          u_inds = map (\<lambda>k. i + k) (where_nonzero (drop i (jac ! i)));
          uband' = (if length u_inds \<ge> 1 \<and> last u_inds - i > uband then last u_inds - i else uband)
      in find_bands jac is (lband', uband'))"

text \<open>\<^verbatim>\<open>j_pat = np.zeros_like(jac); j_pat[jac != 0] = 1\<close>.\<close>

definition pattern :: "real list list \<Rightarrow> real list list" where
  "pattern jac = map (\<lambda>row. map (\<lambda>x. if x \<noteq> 0 then 1 else 0) row) jac"

definition bandwidth :: "environment \<Rightarrow> simulation \<Rightarrow> error + (nat \<times> nat \<times> real list list)" where
  "bandwidth im sim =
     bind_e (jacobian im sim) (\<lambda>jac.
     let (lband, uband) = find_bands jac [0..<length jac] (0, 0);
         j_pat = pattern jac
     in Inr (lband, uband, j_pat))"

subsection \<open>Notions used in the statements about \<^verbatim>\<open>bandwidth\<close>\<close>

text \<open>A matrix of \<open>n\<close> rows of length \<open>n\<close>.\<close>

definition square :: "nat \<Rightarrow> real list list \<Rightarrow> bool" where
  "square n jac \<longleftrightarrow> length jac = n \<and> list_all (\<lambda>row. length row = n) jac"

text \<open>
  The rows of \<open>res\<close> that a call in current mode assigns, in the order of the assignments.
\<close>

definition written_rows :: "simulation \<Rightarrow> nat list" where
  "written_rows sim = r_ptr_Li_ed (sim_an sim) @ [ptr_phi_ed (sim_an sim)]
                    @ r_ptr_Li_ed (sim_ca sim) @ [ptr_phi_ed (sim_ca sim), ptr_phi_el (sim_el sim)]"

subsection \<open>A concrete cell\<close>

text \<open>
  A small cell with two radial nodes per particle, used to run the model: the state vector
  holds the anode fractions at 0 and 1, the anode potential at 2, the electrolyte potential
  at 3, the cathode fractions at 4 and 5 and the cathode potential at 6. The radial operators
  are the finite-volume gradient and the spherical divergence.
\<close>

definition demo_c :: constants where
  "demo_c = \<lparr>c_F = 964853321 / 10, c_R = 83145 / 10\<rparr>"

definition demo_env :: environment where
  "demo_env = \<lparr>env_c = demo_c,
     grad_r = (\<lambda>r f. map2 (/) (map2 (-) (tl f) (butlast f)) (map2 (-) (tl r) (butlast r))),
     div_r = (\<lambda>rm rp f. map (\<lambda>(a, b, fm, fp). 3 * (b ^ 2 * fp - a ^ 2 * fm) / (b ^ 3 - a ^ 3))
                (zip rm (zip rp (zip (butlast f) (tl f)))))\<rparr>"

definition demo_an :: electrode where
  "demo_an = \<lparr>ptr_phi_ed = 2, r_ptr_Li_ed = [0, 1], Li_max = 30, alpha_a = 1 / 2, alpha_c = 1 / 2,
     A_s = 3, thick = 2, ed_r = [1 / 2, 3 / 2], ed_rm = [0, 1], ed_rp = [1, 2],
     get_Eeq = (\<lambda>x T. 0), get_i0 = (\<lambda>x L T. 5), get_Ds = (\<lambda>xs T. map (\<lambda>x. 1) xs)\<rparr>"

definition demo_ca :: electrode where
  "demo_ca = demo_an\<lparr>ptr_phi_ed := 6, r_ptr_Li_ed := [4, 5]\<rparr>"

definition demo_sim :: simulation where
  "demo_sim = \<lparr>sim_bat = \<lparr>temp = 300, area = 4, cap = 2\<rparr>,
     sim_el = \<lparr>ptr_phi_el = 3, Li_0 = 1\<rparr>, sim_an = demo_an, sim_ca = demo_ca,
     sim_t0 = 0, flag_post = True,
     sim_sv0 = [1 / 2, 1 / 2, 0, 0, 1 / 2, 1 / 2, 0], sim_svdot0 = [0, 0, 0, 0, 0, 0, 0]\<rparr>"

text \<open>
  A memory with the state vector at address 0, its derivative at address 1 and a residual
  buffer filled with nines at address 2.
\<close>

definition demo_mem :: "real list \<Rightarrow> simulation \<Rightarrow> exp_dict \<Rightarrow> memory" where
  "demo_mem y sim e =
     \<lparr>arrays = (\<lambda>a. if a = 0 then y
                     else if a = 1 then [0, 0, 0, 0, 0, 0, 0]
                     else [9, 9, 9, 9, 9, 9, 9]),
      sim_obj = sim, expt = e\<rparr>"

definition demo_y :: "real list" where
  "demo_y = [1 / 2, 1 / 2, 0, 0, 1 / 2, 1 / 2, 0]"

text \<open>A state with the cathode at one volt, and experiments in the other modes.\<close>

definition volt_y :: "real list" where
  "volt_y = [1 / 2, 1 / 2, 0, 0, 1 / 2, 1 / 2, 1]"

definition volt_exp :: exp_dict where
  "volt_exp = \<lparr>exp_mode = Some ''voltage'', exp_units = Some ''V'',
               exp_value = Some (\<lambda>t. 4), exp_events = None\<rparr>"

definition volt_rate :: real where
  "volt_rate = 5 / c_F demo_c * (exp (1 / 2 * c_F demo_c * 1 / c_R demo_c / 300)
                                 - exp (- (1 / 2) * c_F demo_c * 1 / c_R demo_c / 300))"

definition odd_exp :: exp_dict where
  "odd_exp = \<lparr>exp_mode = Some ''current'', exp_units = Some ''mA'',
              exp_value = Some (\<lambda>t. 1), exp_events = None\<rparr>"

text \<open>
  The same cell with electrodes that do not react (the exchange current density is zero), and
  a state with the electrolyte at minus two volts.
\<close>

definition inert_sim :: simulation where
  "inert_sim = demo_sim\<lparr>sim_an := demo_an\<lparr>get_i0 := (\<lambda>x L T. 0)\<rparr>,
                         sim_ca := demo_ca\<lparr>get_i0 := (\<lambda>x L T. 0)\<rparr>\<rparr>"

definition neg_y :: "real list" where
  "neg_y = [1 / 2, 1 / 2, 0, - 2, 1 / 2, 1 / 2, 2]"

section \<open>Properties\<close>

subsection \<open>Statements\<close>

lemma next_do_load:
  "next_do (load a i) f s =
     (if i < length (arrays s a) then f (arrays s a ! i) s else (s, Inl IndexError))"
  by (simp add: next_do_def load_def getitem_def)

lemma next_do_load_items:
  "next_do (load_items a idx) f s =
     (if list_all (\<lambda>i. i < length (arrays s a)) idx then f (map (\<lambda>i. arrays s a ! i) idx) s
      else (s, Inl IndexError))"
  by (simp add: next_do_def load_items_def getitems_def)

lemma next_do_lift:
  "next_do (lift r) f s = (case r of Inl e \<Rightarrow> (s, Inl e) | Inr x \<Rightarrow> f x s)"
  by (simp add: next_do_def lift_def split: sum.splits)

lemma next_do_store:
  "next_do (store a i v) f s =
     (if i < length (arrays s a) then f () (s\<lparr>arrays := (arrays s)(a := (arrays s a)[i := v])\<rparr>)
      else (s, Inl IndexError))"
  by (simp add: next_do_def store_def setitem_def)

lemma next_do_store_items:
  "next_do (store_items a idx vs) f s =
     (case setitems (arrays s a) idx vs of
        Inl e \<Rightarrow> (s, Inl e)
      | Inr xs \<Rightarrow> f () (s\<lparr>arrays := (arrays s)(a := xs)\<rparr>))"
  by (simp add: next_do_def store_items_def split: sum.splits)

lemma next_do_lookup:
  "next_do (lookup key) f s = (case key (expt s) of None \<Rightarrow> (s, Inl KeyError) | Some v \<Rightarrow> f v s)"
  by (simp add: next_do_def lookup_def split: option.splits)

lemma next_do_set_events:
  "next_do (set_events ev) f s = f () (s\<lparr>expt := (expt s)\<lparr>exp_events := Some ev\<rparr>\<rparr>)"
  by (simp add: next_do_def set_events_def)

lemma next_do_ret: "next_do (ret x) f = f x"
  by (simp add: next_do_def ret_def)

lemma next_do_pure: "next_do (\<lambda>s. (s, Inr x)) f = f x"
  by (simp add: next_do_def)

lemma next_do_assoc:
  "next_do (next_do m f) g = next_do m (\<lambda>x. next_do (f x) g)"
  by (auto simp: next_do_def fun_eq_iff split: prod.splits sum.splits)

lemmas stmt_rules = next_do_load next_do_load_items next_do_lift next_do_store next_do_store_items
  next_do_lookup next_do_set_events next_do_ret

lemma bind_e_Inr: "bind_e m f = Inr y \<longleftrightarrow> (\<exists>x. m = Inr x \<and> f x = Inr y)"
  by (cases m) (auto simp: bind_e_def)

subsection \<open>Index assignment writes only the indexed rows\<close>

lemma length_assign: "length (assign ivs xs) = length xs"
  by (induction ivs xs rule: assign.induct) auto

lemma assign_outside: "i \<notin> fst ` set ivs \<Longrightarrow> assign ivs xs ! i = xs ! i"
  by (induction ivs xs rule: assign.induct) auto

lemma setitems_frame:
  assumes "setitems xs idx vs = Inr ys"
  shows "length ys = length xs \<and> (\<forall>i. i \<notin> set idx \<longrightarrow> ys ! i = xs ! i)"
proof -
  have "fst ` set (zip idx vs) \<subseteq> set idx"
    by (auto dest: set_zip_leftD)
  moreover have "fst ` set (map (\<lambda>i. (i, hd vs)) idx) \<subseteq> set idx"
    by auto
  ultimately show ?thesis
    using assms
    by (auto simp: setitems_def length_assign split: if_splits intro!: assign_outside)
qed

subsection \<open>The electrode sections\<close>

lemma reaction_current_Inr:
  "reaction_current c ed el T phi_ed phi_el xs = Inr a \<longleftrightarrow>
     xs \<noteq> [] \<and>
     a = get_i0 ed (last xs) (Li_0 el) T / c_F c *
           (exp (alpha_a ed * c_F c * (phi_ed - phi_el - get_Eeq ed (last xs) T) / c_R c / T)
            - exp (- alpha_c ed * c_F c * (phi_ed - phi_el - get_Eeq ed (last xs) T) / c_R c / T))"
  by (auto simp: reaction_current_def bind_e_def last_item_def Let_def)

lemma radial_flux_faces:
  assumes "radial_flux im ed T xs Li sdot = Inr Js"
  shows "hd Js = 0 \<and> last Js = - sdot \<and> 2 \<le> length Js"
  using assms by (auto simp: radial_flux_def bind_e_Inr)

lemma next_do_solid_com:
  "next_do (solid_com im ed svdot res Js) f s =
     (if list_all (\<lambda>i. i < length (arrays s svdot)) (r_ptr_Li_ed ed) then
        (case broadcast (-) (scale (Li_max ed) (map (\<lambda>i. arrays s svdot ! i) (r_ptr_Li_ed ed)))
                 (div_r im (ed_rm ed) (ed_rp ed) Js) of
           Inl e \<Rightarrow> (s, Inl e)
         | Inr rhs \<Rightarrow>
            (case setitems (arrays s res) (r_ptr_Li_ed ed) rhs of
               Inl e \<Rightarrow> (s, Inl e)
             | Inr xs \<Rightarrow> f () (s\<lparr>arrays := (arrays s)(res := xs)\<rparr>)))
      else (s, Inl IndexError))"
  by (simp add: solid_com_def stmt_rules next_do_assoc split: sum.splits)

text \<open>
  The electrode sections write into \<open>res\<close> only, and there only the rows of the two
  \<^verbatim>\<open>r_ptr['Li_ed']\<close> and the row of the anode potential; this holds for a raising run too.
\<close>

lemma electrodes_frame:
  assumes "electrodes im sv svdot res s = (s1, r)"
  shows "sim_obj s1 = sim_obj s \<and> expt s1 = expt s \<and> (\<forall>a. a \<noteq> res \<longrightarrow> arrays s1 a = arrays s a)
       \<and> length (arrays s1 res) = length (arrays s res)
       \<and> (\<forall>i. i \<notin> set (r_ptr_Li_ed (sim_an (sim_obj s))) \<and> i \<noteq> ptr_phi_ed (sim_an (sim_obj s))
               \<and> i \<notin> set (r_ptr_Li_ed (sim_ca (sim_obj s))) \<longrightarrow> arrays s1 res ! i = arrays s res ! i)"
  using assms
  apply (simp add: electrodes_def Let_def stmt_rules next_do_solid_com ret_def split: if_splits sum.splits)
  apply (auto dest!: setitems_frame)
  done

text \<open>What a returning run of the electrode sections hands on.\<close>

lemma electrodes_Inr:
  assumes "electrodes im sv svdot res s = (s1, Inr (phi_ca, a, b))"
  shows "ptr_phi_ed (sim_ca (sim_obj s)) < length (arrays s sv)
       \<and> phi_ca = arrays s sv ! ptr_phi_ed (sim_ca (sim_obj s))
       \<and> ptr_phi_ed (sim_an (sim_obj s)) < length (arrays s sv)
       \<and> ptr_phi_el (sim_el (sim_obj s)) < length (arrays s sv)
       \<and> reaction_current (env_c im) (sim_an (sim_obj s)) (sim_el (sim_obj s)) (temp (sim_bat (sim_obj s)))
            (arrays s sv ! ptr_phi_ed (sim_an (sim_obj s))) (arrays s sv ! ptr_phi_el (sim_el (sim_obj s)))
            (map (\<lambda>i. arrays s sv ! i) (r_ptr_Li_ed (sim_an (sim_obj s)))) = Inr a
       \<and> reaction_current (env_c im) (sim_ca (sim_obj s)) (sim_el (sim_obj s)) (temp (sim_bat (sim_obj s)))
            (arrays s sv ! ptr_phi_ed (sim_ca (sim_obj s))) (arrays s sv ! ptr_phi_el (sim_el (sim_obj s)))
            (map (\<lambda>i. arrays s sv ! i) (r_ptr_Li_ed (sim_ca (sim_obj s)))) = Inr b
       \<and> (\<exists>Js. radial_flux im (sim_an (sim_obj s)) (temp (sim_bat (sim_obj s)))
                 (map (\<lambda>i. arrays s sv ! i) (r_ptr_Li_ed (sim_an (sim_obj s))))
                 (scale (Li_max (sim_an (sim_obj s)))
                    (map (\<lambda>i. arrays s sv ! i) (r_ptr_Li_ed (sim_an (sim_obj s))))) a = Inr Js)
       \<and> (\<exists>Js. radial_flux im (sim_ca (sim_obj s)) (temp (sim_bat (sim_obj s)))
                 (map (\<lambda>i. arrays s sv ! i) (r_ptr_Li_ed (sim_ca (sim_obj s))))
                 (scale (Li_max (sim_ca (sim_obj s)))
                    (map (\<lambda>i. arrays s sv ! i) (r_ptr_Li_ed (sim_ca (sim_obj s))))) b = Inr Js)"
  using assms
  by (simp add: electrodes_def Let_def stmt_rules next_do_solid_com ret_def split: if_splits sum.splits)

lemma solid_com_eq:
  "solid_com im ed svdot res Js s =
     (if list_all (\<lambda>i. i < length (arrays s svdot)) (r_ptr_Li_ed ed) then
        (case broadcast (-) (scale (Li_max ed) (map (\<lambda>i. arrays s svdot ! i) (r_ptr_Li_ed ed)))
                 (div_r im (ed_rm ed) (ed_rp ed) Js) of
           Inl e \<Rightarrow> (s, Inl e)
         | Inr rhs \<Rightarrow>
            (case setitems (arrays s res) (r_ptr_Li_ed ed) rhs of
               Inl e \<Rightarrow> (s, Inl e)
             | Inr xs \<Rightarrow> (s\<lparr>arrays := (arrays s)(res := xs)\<rparr>, Inr ())))
      else (s, Inl IndexError))"
  by (simp add: solid_com_def stmt_rules store_items_def split: sum.splits)

text \<open>
  The flux vectors of a returning run, and the two assignments of the conservation of mass
  they enter.
\<close>

lemma electrodes_flux:
  assumes "electrodes im sv svdot res s = (s1, Inr (phi_ca, a, b))"
  shows "\<exists>Js_an Js_ca s_a.
       radial_flux im (sim_an (sim_obj s)) (temp (sim_bat (sim_obj s)))
          (map (\<lambda>i. arrays s sv ! i) (r_ptr_Li_ed (sim_an (sim_obj s))))
          (scale (Li_max (sim_an (sim_obj s)))
             (map (\<lambda>i. arrays s sv ! i) (r_ptr_Li_ed (sim_an (sim_obj s))))) a = Inr Js_an
     \<and> radial_flux im (sim_ca (sim_obj s)) (temp (sim_bat (sim_obj s)))
          (map (\<lambda>i. arrays s sv ! i) (r_ptr_Li_ed (sim_ca (sim_obj s))))
          (scale (Li_max (sim_ca (sim_obj s)))
             (map (\<lambda>i. arrays s sv ! i) (r_ptr_Li_ed (sim_ca (sim_obj s))))) b = Inr Js_ca
     \<and> solid_com im (sim_an (sim_obj s)) svdot res Js_an s = (s_a, Inr ())
     \<and> solid_com im (sim_ca (sim_obj s)) svdot res Js_ca
          (s_a\<lparr>arrays := (arrays s_a)(res := (arrays s_a res)
               [ptr_phi_ed (sim_an (sim_obj s)) := arrays s sv ! ptr_phi_ed (sim_an (sim_obj s)) - 0])\<rparr>)
          = (s1, Inr ())"
  using assms
  apply (simp add: electrodes_def Let_def stmt_rules next_do_solid_com ret_def split: if_splits sum.splits)
  apply (auto simp: solid_com_eq)
  done

text \<open>The electrode sections read neither the flag \<^verbatim>\<open>post\<close> nor the experiment.\<close>

lemma electrodes_flag:
  "electrodes im sv svdot res (s\<lparr>sim_obj := (sim_obj s)\<lparr>flag_post := f\<rparr>\<rparr>) =
     (case electrodes im sv svdot res s of (s1, r) \<Rightarrow> (s1\<lparr>sim_obj := (sim_obj s1)\<lparr>flag_post := f\<rparr>\<rparr>, r))"
  by (simp add: electrodes_def Let_def stmt_rules next_do_solid_com ret_def split: if_splits sum.splits)

lemma electrodes_expt:
  "electrodes im sv svdot res (s\<lparr>expt := e\<rparr>) =
     (case electrodes im sv svdot res s of (s1, r) \<Rightarrow> (s1\<lparr>expt := e\<rparr>, r))"
  by (simp add: electrodes_def Let_def stmt_rules next_do_solid_com ret_def split: if_splits sum.splits)

subsection \<open>The boundary conditions, the events and the result\<close>

text \<open>The boundary conditions without the statement combinators.\<close>

lemma boundary_conditions_eq:
  "boundary_conditions im t res phi_ca a b s =
     (case exp_mode (expt s) of None \<Rightarrow> (s, Inl KeyError) | Some mode \<Rightarrow>
      case exp_units (expt s) of None \<Rightarrow> (s, Inl KeyError) | Some units \<Rightarrow>
      case exp_value (expt s) of None \<Rightarrow> (s, Inl KeyError) | Some val \<Rightarrow>
      (let sim = sim_obj s; c = env_c im;
           bat = sim_bat sim; el = sim_el sim; an = sim_an sim; ca = sim_ca sim;
           xs = arrays s res;
           current_A = - a * A_s an * thick an * c_F c * area bat;
           out = (current_A, phi_ca, current_A * phi_ca);
           rows = (\<lambda>v w.
             if \<not> ptr_phi_ed ca < length xs then (s, Inl IndexError)
             else if \<not> ptr_phi_el el < length xs then
               (s\<lparr>arrays := (arrays s)(res := xs[ptr_phi_ed ca := v])\<rparr>, Inl IndexError)
             else (s\<lparr>arrays := (arrays s)(res := xs[ptr_phi_ed ca := v, ptr_phi_el el := w])\<rparr>, Inr out))
       in
       if mode = ''current'' \<and> units = ''A'' then
         (if area bat = 0 then (s, Inl ZeroDivisionError)
          else rows (b * A_s ca * thick ca * c_F c - val t / area bat)
                    (a * A_s an * thick an * c_F c + val t / area bat))
       else if mode = ''current'' \<and> units = ''C'' then
         (if area bat = 0 then (s, Inl ZeroDivisionError)
          else rows (b * A_s ca * thick ca * c_F c - val t * cap bat / area bat)
                    (a * A_s an * thick an * c_F c + val t * cap bat / area bat))
       else if mode = ''voltage'' then
         rows (phi_ca - val t) (a * A_s an * thick an + b * A_s ca * thick ca)
       else if mode = ''power'' then
         rows (current_A * phi_ca - val t) (a * A_s an * thick an + b * A_s ca * thick ca)
       else (s, Inr out)))"
  by (simp add: boundary_conditions_def Let_def stmt_rules next_do_assoc next_do_pure py_div_def
      ret_def split: option.splits)

text \<open>
  The boundary conditions write into \<open>res\<close> only, and there only the rows of the cathode
  potential and of the electrolyte potential.
\<close>

lemma boundary_conditions_frame:
  assumes "boundary_conditions im t res phi_ca a b s = (s', r)"
  shows "sim_obj s' = sim_obj s \<and> expt s' = expt s \<and> (\<forall>x. x \<noteq> res \<longrightarrow> arrays s' x = arrays s x)
       \<and> length (arrays s' res) = length (arrays s res)
       \<and> (\<forall>i. i \<noteq> ptr_phi_ed (sim_ca (sim_obj s)) \<and> i \<noteq> ptr_phi_el (sim_el (sim_obj s))
               \<longrightarrow> arrays s' res ! i = arrays s res ! i)"
  using assms
  by (auto simp: boundary_conditions_eq Let_def split: option.splits if_splits)

lemma boundary_conditions_Inr:
  assumes "boundary_conditions im t res phi_ca a b s = (s', Inr out)"
  shows "out = (- a * A_s (sim_an (sim_obj s)) * thick (sim_an (sim_obj s)) * c_F (env_c im)
                  * area (sim_bat (sim_obj s)),
                phi_ca,
                - a * A_s (sim_an (sim_obj s)) * thick (sim_an (sim_obj s)) * c_F (env_c im)
                  * area (sim_bat (sim_obj s)) * phi_ca)"
  using assms
  by (auto simp: boundary_conditions_eq Let_def split: option.splits if_splits)

lemma events_tracking_eq:
  "events_tracking t current_A voltage_V power_W s =
     (s\<lparr>expt := (expt s)\<lparr>exp_events := Some
          [(''time_s'', sim_t0 (sim_obj s) + t),
           (''time_min'', (sim_t0 (sim_obj s) + t) / 60),
           (''time_h'', (sim_t0 (sim_obj s) + t) / 3600),
           (''current_A'', current_A),
           (''current_C'', current_A / cap (sim_bat (sim_obj s))),
           (''voltage_V'', voltage_V),
           (''power_W'', power_W)]\<rparr>\<rparr>, Inr ())"
  by (simp add: events_tracking_def Let_def set_events_def)

lemma returns_eq:
  "returns a b s = (s, Inr (if flag_post (sim_obj s) then Some (a, b) else None))"
  by (simp add: returns_def ret_def)

text \<open>\<^verbatim>\<open>residuals\<close> section by section.\<close>

lemma residuals_eq:
  "residuals im t sv svdot res s =
     (case electrodes im sv svdot res s of
        (s1, Inl e) \<Rightarrow> (s1, Inl e)
      | (s1, Inr (phi_ca, a, b)) \<Rightarrow>
         (case boundary_conditions im t res phi_ca a b s1 of
            (s2, Inl e) \<Rightarrow> (s2, Inl e)
          | (s2, Inr (current_A, voltage_V, power_W)) \<Rightarrow>
             (case events_tracking t current_A voltage_V power_W s2 of
                (s3, r) \<Rightarrow> returns a b s3)))"
  by (simp add: residuals_def next_do_def events_tracking_eq split: prod.splits sum.splits)

text \<open>A returning call of \<^verbatim>\<open>residuals\<close> has run every section to its end.\<close>

lemma residuals_Inr_sections:
  assumes "residuals im t sv svdot res s = (s', Inr out)"
  shows "\<exists>s1 s2 phi_ca a b cA vV pW.
           electrodes im sv svdot res s = (s1, Inr (phi_ca, a, b))
         \<and> boundary_conditions im t res phi_ca a b s1 = (s2, Inr (cA, vV, pW))
         \<and> events_tracking t cA vV pW s2 = (s', Inr ())
         \<and> out = (if flag_post (sim_obj s) then Some (a, b) else None)"
proof -
  obtain s1 r1 where el: "electrodes im sv svdot res s = (s1, r1)"
    by (cases "electrodes im sv svdot res s")
  with assms obtain phi_ca a b where r1: "r1 = Inr (phi_ca, a, b)"
    by (cases r1) (auto simp: residuals_eq)
  obtain s2 r2 where bc: "boundary_conditions im t res phi_ca a b s1 = (s2, r2)"
    by (cases "boundary_conditions im t res phi_ca a b s1")
  with assms el r1 obtain cA vV pW where r2: "r2 = Inr (cA, vV, pW)"
    by (cases r2) (auto simp: residuals_eq)
  from electrodes_frame[OF el] boundary_conditions_frame[OF bc]
  have sim: "sim_obj s2 = sim_obj s"
    by simp
  from assms el r1 bc r2 sim
  have "events_tracking t cA vV pW s2 = (s', Inr ())"
    and "out = (if flag_post (sim_obj s) then Some (a, b) else None)"
    by (auto simp: residuals_eq events_tracking_eq returns_eq)
  with el r1 bc r2 show ?thesis
    by blast
qed

lemma residuals_Inr_electrodes:
  assumes "residuals im t sv svdot res s = (s', Inr out)"
  shows "\<exists>s1 phi_ca a b. electrodes im sv svdot res s = (s1, Inr (phi_ca, a, b))
           \<and> out = (if flag_post (sim_obj s) then Some (a, b) else None)"
  using residuals_Inr_sections[OF assms] by blast

lemma boundary_conditions_flag:
  "boundary_conditions im t res phi_ca a b (s\<lparr>sim_obj := (sim_obj s)\<lparr>flag_post := f\<rparr>\<rparr>) =
     (case boundary_conditions im t res phi_ca a b s of
        (s', r) \<Rightarrow> (s'\<lparr>sim_obj := (sim_obj s')\<lparr>flag_post := f\<rparr>\<rparr>, r))"
  by (simp add: boundary_conditions_eq Let_def split: option.splits)

lemma residuals_flag:
  "residuals im t sv svdot res (s\<lparr>sim_obj := (sim_obj s)\<lparr>flag_post := f\<rparr>\<rparr>) =
     (case electrodes im sv svdot res s of
        (s1, Inl e) \<Rightarrow> (s1\<lparr>sim_obj := (sim_obj s1)\<lparr>flag_post := f\<rparr>\<rparr>, Inl e)
      | (s1, Inr (phi_ca, a, b)) \<Rightarrow>
         (case boundary_conditions im t res phi_ca a b s1 of
            (s2, Inl e) \<Rightarrow> (s2\<lparr>sim_obj := (sim_obj s2)\<lparr>flag_post := f\<rparr>\<rparr>, Inl e)
          | (s2, Inr (cA, vV, pW)) \<Rightarrow>
             ((fst (events_tracking t cA vV pW s2))\<lparr>sim_obj := (sim_obj s2)\<lparr>flag_post := f\<rparr>\<rparr>,
              Inr (if f then Some (a, b) else None))))"
  by (simp add: residuals_eq electrodes_flag boundary_conditions_flag events_tracking_eq returns_eq
      split: prod.splits sum.splits)

text \<open>What every call of \<^verbatim>\<open>residuals\<close>, returning or raising, leaves unchanged.\<close>

lemma residuals_memory:
  assumes "residuals im t sv svdot res s = (s', r)"
  shows "sim_obj s' = sim_obj s \<and> (\<forall>a. a \<noteq> res \<longrightarrow> arrays s' a = arrays s a)
       \<and> length (arrays s' res) = length (arrays s res)
       \<and> exp_mode (expt s') = exp_mode (expt s)
       \<and> exp_units (expt s') = exp_units (expt s)
       \<and> exp_value (expt s') = exp_value (expt s)"
proof -
  obtain s1 r1 where el: "electrodes im sv svdot res s = (s1, r1)"
    by (cases "electrodes im sv svdot res s")
  note f1 = electrodes_frame[OF el]
  show ?thesis
  proof (cases r1)
    case (Inl e)
    with el assms f1 show ?thesis
      by (auto simp: residuals_eq)
  next
    case (Inr q)
    obtain phi_ca a b where q: "q = (phi_ca, a, b)"
      by (cases q)
    obtain s2 r2 where bc: "boundary_conditions im t res phi_ca a b s1 = (s2, r2)"
      by (cases "boundary_conditions im t res phi_ca a b s1")
    note f2 = boundary_conditions_frame[OF bc]
    from el Inr q bc assms f1 f2 show ?thesis
      by (cases r2) (auto simp: residuals_eq events_tracking_eq returns_eq)
  qed
qed

subsection \<open>The assigned rows do not depend on the buffer\<close>

lemma assign_append: "assign (ivs @ jvs) xs = assign jvs (assign ivs xs)"
  by (induction ivs xs rule: assign.induct) auto

lemma assign_inside:
  assumes "i \<in> fst ` set ivs" "i < length xs" "length xs = length ys"
  shows "assign ivs xs ! i = assign ivs ys ! i"
  using assms
proof (induction ivs arbitrary: xs ys)
  case Nil
  then show ?case by simp
next
  case (Cons p ivs)
  obtain k v where p: "p = (k, v)"
    by (cases p)
  show ?case
  proof (cases "i \<in> fst ` set ivs")
    case True
    with Cons.prems Cons.IH[of "xs[k := v]" "ys[k := v]"] show ?thesis
      by (simp add: p)
  next
    case False
    with Cons.prems have "i = k"
      by (auto simp: p)
    with False Cons.prems show ?thesis
      by (simp add: p assign_outside)
  qed
qed

lemma assign_absorb:
  assumes "fst ` set jvs \<subseteq> fst ` set ivs"
  shows "assign ivs (assign jvs xs) = assign ivs xs"
proof (rule nth_equalityI)
  show "length (assign ivs (assign jvs xs)) = length (assign ivs xs)"
    by (simp add: length_assign)
next
  fix i
  assume "i < length (assign ivs (assign jvs xs))"
  then have i: "i < length xs"
    by (simp add: length_assign)
  show "assign ivs (assign jvs xs) ! i = assign ivs xs ! i"
  proof (cases "i \<in> fst ` set ivs")
    case True
    then show ?thesis
      using i by (intro assign_inside) (simp_all add: length_assign)
  next
    case False
    with assms have "i \<notin> fst ` set jvs"
      by auto
    with False show ?thesis
      by (simp add: assign_outside)
  qed
qed

lemma setitems_assign:
  assumes "setitems xs idx vs = Inr ys"
  shows "\<exists>ivs. map fst ivs = idx \<and> list_all (\<lambda>i. i < length xs) idx
           \<and> (\<forall>zs. length zs = length xs \<longrightarrow> setitems zs idx vs = Inr (assign ivs zs))"
proof (cases "length vs = length idx")
  case True
  with assms show ?thesis
    by (intro exI[of _ "zip idx vs"]) (auto simp: setitems_def split: if_splits)
next
  case False
  with assms show ?thesis
    by (intro exI[of _ "map (\<lambda>i. (i, hd vs)) idx"]) (auto simp: setitems_def comp_def split: if_splits)
qed

text \<open>
  The electrode sections, when \<open>res\<close> is neither \<open>sv\<close> nor \<open>svdot\<close>, as the list of the
  facts that make them return.
\<close>

lemma electrodes_iff:
  assumes "res \<noteq> sv" "res \<noteq> svdot"
  shows "electrodes im sv svdot res s = (s1, Inr q) \<longleftrightarrow>
    (let sim = sim_obj s; an = sim_an sim; ca = sim_ca sim; el = sim_el sim;
         T = temp (sim_bat sim); y = arrays s sv; yd = arrays s svdot;
         xs_an = map (\<lambda>i. y ! i) (r_ptr_Li_ed an); xs_ca = map (\<lambda>i. y ! i) (r_ptr_Li_ed ca)
     in \<exists>a b Js_an Js_ca rhs_an rhs_ca x1 x2.
          ptr_phi_ed an < length y \<and> ptr_phi_el el < length y \<and> ptr_phi_ed ca < length y
        \<and> list_all (\<lambda>i. i < length y) (r_ptr_Li_ed an) \<and> list_all (\<lambda>i. i < length y) (r_ptr_Li_ed ca)
        \<and> reaction_current (env_c im) an el T (y ! ptr_phi_ed an) (y ! ptr_phi_el el) xs_an = Inr a
        \<and> radial_flux im an T xs_an (scale (Li_max an) xs_an) a = Inr Js_an
        \<and> list_all (\<lambda>i. i < length yd) (r_ptr_Li_ed an)
        \<and> broadcast (-) (scale (Li_max an) (map (\<lambda>i. yd ! i) (r_ptr_Li_ed an)))
             (div_r im (ed_rm an) (ed_rp an) Js_an) = Inr rhs_an
        \<and> setitems (arrays s res) (r_ptr_Li_ed an) rhs_an = Inr x1
        \<and> ptr_phi_ed an < length x1
        \<and> reaction_current (env_c im) ca el T (y ! ptr_phi_ed ca) (y ! ptr_phi_el el) xs_ca = Inr b
        \<and> radial_flux im ca T xs_ca (scale (Li_max ca) xs_ca) b = Inr Js_ca
        \<and> list_all (\<lambda>i. i < length yd) (r_ptr_Li_ed ca)
        \<and> broadcast (-) (scale (Li_max ca) (map (\<lambda>i. yd ! i) (r_ptr_Li_ed ca)))
             (div_r im (ed_rm ca) (ed_rp ca) Js_ca) = Inr rhs_ca
        \<and> setitems (x1[ptr_phi_ed an := y ! ptr_phi_ed an - 0]) (r_ptr_Li_ed ca) rhs_ca = Inr x2
        \<and> s1 = s\<lparr>arrays := (arrays s)(res := x2)\<rparr>
        \<and> q = (y ! ptr_phi_ed ca, a, b))"
  using assms
  by (auto simp: electrodes_def Let_def stmt_rules next_do_solid_com ret_def
      split: if_splits sum.splits)

lemma electrodes_buffer:
  assumes "electrodes im sv svdot res s = (s1, Inr q)" and "res \<noteq> sv" and "res \<noteq> svdot"
  shows "\<exists>ivs. map fst ivs = r_ptr_Li_ed (sim_an (sim_obj s)) @ [ptr_phi_ed (sim_an (sim_obj s))]
                               @ r_ptr_Li_ed (sim_ca (sim_obj s))
           \<and> (\<forall>buf. length buf = length (arrays s res) \<longrightarrow>
                 electrodes im sv svdot res (s\<lparr>arrays := (arrays s)(res := buf)\<rparr>)
                   = (s\<lparr>arrays := (arrays s)(res := assign ivs buf)\<rparr>, Inr q))"
proof -
  let ?an = "sim_an (sim_obj s)" and ?ca = "sim_ca (sim_obj s)"
  let ?y = "arrays s sv"
  from assms(1)[unfolded electrodes_iff[OF assms(2,3)] Let_def]
  obtain a b Js_an Js_ca rhs_an rhs_ca x1 x2 where
    pre: "ptr_phi_ed ?an < length ?y" "ptr_phi_el (sim_el (sim_obj s)) < length ?y"
         "ptr_phi_ed ?ca < length ?y"
         "list_all (\<lambda>i. i < length ?y) (r_ptr_Li_ed ?an)" "list_all (\<lambda>i. i < length ?y) (r_ptr_Li_ed ?ca)"
    and ra: "reaction_current (env_c im) ?an (sim_el (sim_obj s)) (temp (sim_bat (sim_obj s)))
               (?y ! ptr_phi_ed ?an) (?y ! ptr_phi_el (sim_el (sim_obj s)))
               (map (\<lambda>i. ?y ! i) (r_ptr_Li_ed ?an)) = Inr a"
    and fa: "radial_flux im ?an (temp (sim_bat (sim_obj s))) (map (\<lambda>i. ?y ! i) (r_ptr_Li_ed ?an))
               (scale (Li_max ?an) (map (\<lambda>i. ?y ! i) (r_ptr_Li_ed ?an))) a = Inr Js_an"
    and da: "list_all (\<lambda>i. i < length (arrays s svdot)) (r_ptr_Li_ed ?an)"
    and ba: "broadcast (-) (scale (Li_max ?an) (map (\<lambda>i. arrays s svdot ! i) (r_ptr_Li_ed ?an)))
               (div_r im (ed_rm ?an) (ed_rp ?an) Js_an) = Inr rhs_an"
    and sa: "setitems (arrays s res) (r_ptr_Li_ed ?an) rhs_an = Inr x1"
    and pa: "ptr_phi_ed ?an < length x1"
    and rc: "reaction_current (env_c im) ?ca (sim_el (sim_obj s)) (temp (sim_bat (sim_obj s)))
               (?y ! ptr_phi_ed ?ca) (?y ! ptr_phi_el (sim_el (sim_obj s)))
               (map (\<lambda>i. ?y ! i) (r_ptr_Li_ed ?ca)) = Inr b"
    and fc: "radial_flux im ?ca (temp (sim_bat (sim_obj s))) (map (\<lambda>i. ?y ! i) (r_ptr_Li_ed ?ca))
               (scale (Li_max ?ca) (map (\<lambda>i. ?y ! i) (r_ptr_Li_ed ?ca))) b = Inr Js_ca"
    and dc: "list_all (\<lambda>i. i < length (arrays s svdot)) (r_ptr_Li_ed ?ca)"
    and bc: "broadcast (-) (scale (Li_max ?ca) (map (\<lambda>i. arrays s svdot ! i) (r_ptr_Li_ed ?ca)))
               (div_r im (ed_rm ?ca) (ed_rp ?ca) Js_ca) = Inr rhs_ca"
    and sc: "setitems (x1[ptr_phi_ed ?an := ?y ! ptr_phi_ed ?an - 0]) (r_ptr_Li_ed ?ca) rhs_ca = Inr x2"
    and q: "q = (?y ! ptr_phi_ed ?ca, a, b)"
    by blast
  from setitems_assign[OF sa] obtain ivs1 where
    i1: "map fst ivs1 = r_ptr_Li_ed ?an" and
    s1: "\<forall>zs. length zs = length (arrays s res) \<longrightarrow>
            setitems zs (r_ptr_Li_ed ?an) rhs_an = Inr (assign ivs1 zs)"
    by blast
  from setitems_frame[OF sa] have lx1: "length x1 = length (arrays s res)"
    by simp
  from setitems_assign[OF sc] obtain ivs3 where
    i3: "map fst ivs3 = r_ptr_Li_ed ?ca" and
    s3: "\<forall>zs. length zs = length x1 \<longrightarrow>
            setitems zs (r_ptr_Li_ed ?ca) rhs_ca = Inr (assign ivs3 zs)"
    by auto
  let ?v = "?y ! ptr_phi_ed ?an - 0"
  let ?ivs = "ivs1 @ [(ptr_phi_ed ?an, ?v)] @ ivs3"
  have "electrodes im sv svdot res (s\<lparr>arrays := (arrays s)(res := buf)\<rparr>)
          = (s\<lparr>arrays := (arrays s)(res := assign ?ivs buf)\<rparr>, Inr q)"
    if len: "length buf = length (arrays s res)" for buf
  proof -
    let ?s' = "s\<lparr>arrays := (arrays s)(res := buf)\<rparr>"
    have sa': "setitems (arrays ?s' res) (r_ptr_Li_ed ?an) rhs_an = Inr (assign ivs1 buf)"
      using s1 len by simp
    have pa': "ptr_phi_ed ?an < length (assign ivs1 buf)"
      using pa lx1 len by (simp add: length_assign)
    have sc': "setitems ((assign ivs1 buf)[ptr_phi_ed ?an := ?v]) (r_ptr_Li_ed ?ca) rhs_ca
                 = Inr (assign ivs3 ((assign ivs1 buf)[ptr_phi_ed ?an := ?v]))"
      using s3 lx1 len by (simp add: length_assign)
    have fin: "assign ?ivs buf = assign ivs3 ((assign ivs1 buf)[ptr_phi_ed ?an := ?v])"
      by (simp add: assign_append)
    show ?thesis
      unfolding electrodes_iff[OF assms(2,3)] Let_def
      apply (rule exI[of _ a], rule exI[of _ b], rule exI[of _ Js_an], rule exI[of _ Js_ca])
      apply (rule exI[of _ rhs_an], rule exI[of _ rhs_ca])
      apply (rule exI[of _ "assign ivs1 buf"])
      apply (rule exI[of _ "assign ivs3 ((assign ivs1 buf)[ptr_phi_ed ?an := ?v])"])
      using assms(2,3) pre ra fa da ba sa' pa' rc fc dc bc sc' q fin
      apply simp
      done
  qed
  moreover have "map fst ?ivs = r_ptr_Li_ed ?an @ [ptr_phi_ed ?an] @ r_ptr_Li_ed ?ca"
    by (simp add: i1 i3)
  ultimately show ?thesis
    by blast
qed

subsection \<open>The calls of \<^verbatim>\<open>residuals\<close> from \<^verbatim>\<open>bandwidth\<close>\<close>

lemma call_residuals_Inr:
  assumes "call_residuals im t sv svdot res sim e = Inr (r, e')"
  shows "length r = length res \<and> exp_mode e' = exp_mode e \<and> exp_units e' = exp_units e
       \<and> exp_value e' = exp_value e"
proof -
  let ?s = "\<lparr>arrays = (\<lambda>a. [])(0 := sv, 1 := svdot, 2 := res),
              sim_obj = sim, expt = e\<rparr>"
  obtain s' x where run: "residuals im t 0 1 2 ?s = (s', x)"
    by (cases "residuals im t 0 1 2 ?s")
  with assms have "r = arrays s' 2" "e' = expt s'"
    by (auto simp: call_residuals_def split: sum.splits)
  with residuals_memory[OF run] show ?thesis
    by simp
qed

lemma expr_fields:
  "e = expr\<lparr>exp_events := exp_events e\<rparr> \<longleftrightarrow>
     exp_mode e = Some ''current'' \<and> exp_units e = Some ''C'' \<and> exp_value e = Some (\<lambda>t. 0)"
  by (cases e) (auto simp: expr_def)

text \<open>
  In current mode with C-rate units the call assigns the rows \<open>written_rows\<close>; the values
  assigned do not depend on the buffer or on the events of the experiment.
\<close>

lemma call_residuals_buffer:
  assumes "call_residuals im t sv svdot b sim e = Inr (r, e')"
      and "exp_mode e = Some ''current''" and "exp_units e = Some ''C''"
  shows "\<exists>ivs. map fst ivs = written_rows sim
           \<and> (\<forall>b0 ev0. length b0 = length b \<longrightarrow>
                 (\<exists>e0'. call_residuals im t sv svdot b0 sim (e\<lparr>exp_events := ev0\<rparr>)
                          = Inr (assign ivs b0, e0')))"
proof -
  let ?M = "\<lambda>x. (\<lambda>a. [])(0 := sv, 1 := svdot, 2 := (x :: real list))"
  let ?s = "\<lparr>arrays = ?M b, sim_obj = sim, expt = e\<rparr>"
  obtain s' x where run: "residuals im t 0 1 2 ?s = (s', x)"
    by (cases "residuals im t 0 1 2 ?s")
  with assms(1) obtain out where x: "x = Inr out"
    by (auto simp: call_residuals_def split: sum.splits)
  from residuals_Inr_sections[OF run[unfolded x]] obtain s1 s2 phi_ca a c cA vV pW where
    el: "electrodes im 0 1 2 ?s = (s1, Inr (phi_ca, a, c))" and
    bc: "boundary_conditions im t 2 phi_ca a c s1 = (s2, Inr (cA, vV, pW))"
    by blast
  have ne: "(2 :: nat) \<noteq> 0" "(2 :: nat) \<noteq> 1"
    by simp_all
  from electrodes_buffer[OF el ne] obtain ivs1 where
    i1: "map fst ivs1 = r_ptr_Li_ed (sim_an sim) @ [ptr_phi_ed (sim_an sim)] @ r_ptr_Li_ed (sim_ca sim)"
    and e1: "\<forall>buf. length buf = length b \<longrightarrow>
               electrodes im 0 1 2 (?s\<lparr>arrays := (arrays ?s)(2 := buf)\<rparr>)
                 = (?s\<lparr>arrays := (arrays ?s)(2 := assign ivs1 buf)\<rparr>, Inr (phi_ca, a, c))"
    by auto
  from e1[rule_format, of b] el have s1: "s1 = \<lparr>arrays = ?M (assign ivs1 b), sim_obj = sim, expt = e\<rparr>"
    by simp
  from bc assms(2,3) obtain v where v: "exp_value e = Some v"
    by (auto simp: boundary_conditions_eq s1 split: option.splits)
  let ?A = "ptr_phi_ed (sim_ca sim)" and ?B = "ptr_phi_el (sim_el sim)"
  let ?vA = "c * A_s (sim_ca sim) * thick (sim_ca sim) * c_F (env_c im)
               - v t * cap (sim_bat sim) / area (sim_bat sim)"
  let ?vB = "a * A_s (sim_an sim) * thick (sim_an sim) * c_F (env_c im)
               + v t * cap (sim_bat sim) / area (sim_bat sim)"
  from bc assms(2,3) v have ok: "area (sim_bat sim) \<noteq> 0" "?A < length b" "?B < length b"
    by (auto simp: boundary_conditions_eq s1 Let_def length_assign split: if_splits)
  let ?ivs = "ivs1 @ [(?A, ?vA), (?B, ?vB)]"
  have "\<exists>e0'. call_residuals im t sv svdot b0 sim (e\<lparr>exp_events := ev0\<rparr>) = Inr (assign ?ivs b0, e0')"
    if len: "length b0 = length b" for b0 ev0
  proof -
    let ?e0 = "e\<lparr>exp_events := ev0\<rparr>"
    have "electrodes im 0 1 2 \<lparr>arrays = ?M b0, sim_obj = sim, expt = e\<rparr>
            = (\<lparr>arrays = ?M (assign ivs1 b0), sim_obj = sim, expt = e\<rparr>, Inr (phi_ca, a, c))"
      using e1[rule_format, OF len] by simp
    with electrodes_expt[where s = "\<lparr>arrays = ?M b0, sim_obj = sim, expt = e\<rparr>" and e = "?e0",
        of im 0 1 2]
    have el0: "electrodes im 0 1 2 \<lparr>arrays = ?M b0, sim_obj = sim, expt = ?e0\<rparr>
            = (\<lparr>arrays = ?M (assign ivs1 b0), sim_obj = sim, expt = ?e0\<rparr>, Inr (phi_ca, a, c))"
      by simp
    have fin: "assign ?ivs b0 = (assign ivs1 b0)[?A := ?vA, ?B := ?vB]"
      by (simp add: assign_append)
    show ?thesis
      using ok len assms(2,3) v el0
      by (simp add: call_residuals_def residuals_eq boundary_conditions_eq Let_def
          length_assign events_tracking_eq returns_eq fin)
  qed
  moreover have "map fst ?ivs = written_rows sim"
    by (simp add: i1 written_rows_def)
  ultimately show ?thesis
    by blast
qed

text \<open>
  A call on a buffer that an earlier call has written gives what the call on the fresh buffer
  of zeros gives.
\<close>

lemma call_residuals_fresh:
  assumes "call_residuals im t sv svdot b sim e = Inr (r, e')"
      and "e = expr\<lparr>exp_events := exp_events e\<rparr>"
      and "b = assign jvs z" and "map fst jvs = written_rows sim"
  shows "(\<exists>e0. call_residuals im t sv svdot z sim expr = Inr (r, e0))
       \<and> (\<exists>ivs. map fst ivs = written_rows sim \<and> r = assign ivs z)"
proof -
  from assms(2) have m: "exp_mode e = Some ''current''" and u: "exp_units e = Some ''C''"
    by (simp_all add: expr_fields)
  from call_residuals_buffer[OF assms(1) m u] obtain ivs where
    i: "map fst ivs = written_rows sim" and
    c: "\<forall>b0 ev0. length b0 = length b \<longrightarrow>
          (\<exists>e0'. call_residuals im t sv svdot b0 sim (e\<lparr>exp_events := ev0\<rparr>) = Inr (assign ivs b0, e0'))"
    by blast
  from c[rule_format, of b "exp_events e"] assms(1) have r: "r = assign ivs b"
    by auto
  have "fst ` set jvs = fst ` set ivs"
    using i assms(4) by (metis set_map)
  then have abs: "assign ivs (assign jvs z) = assign ivs z"
    by (intro assign_absorb) simp
  have e0: "e\<lparr>exp_events := None\<rparr> = expr"
    using assms(2) by (cases e) (auto simp: expr_def)
  from c[rule_format, of z None] assms(3) have "\<exists>e0'. call_residuals im t sv svdot z sim expr = Inr (assign ivs z, e0')"
    by (simp add: length_assign e0)
  with r abs assms(3) i show ?thesis
    by auto
qed

lemma call_residuals_current_rows:
  assumes "call_residuals im t sv svdot b sim expr = Inr (r, e')"
  shows "\<exists>sdot_an sdot_ca.
       reaction_current (env_c im) (sim_an sim) (sim_el sim) (temp (sim_bat sim))
         (sv ! ptr_phi_ed (sim_an sim)) (sv ! ptr_phi_el (sim_el sim))
         (map (\<lambda>i. sv ! i) (r_ptr_Li_ed (sim_an sim))) = Inr sdot_an
     \<and> reaction_current (env_c im) (sim_ca sim) (sim_el sim) (temp (sim_bat sim))
         (sv ! ptr_phi_ed (sim_ca sim)) (sv ! ptr_phi_el (sim_el sim))
         (map (\<lambda>i. sv ! i) (r_ptr_Li_ed (sim_ca sim))) = Inr sdot_ca
     \<and> r ! ptr_phi_el (sim_el sim)
         = sdot_an * A_s (sim_an sim) * thick (sim_an sim) * c_F (env_c im)
           + 0 * cap (sim_bat sim) / area (sim_bat sim)
     \<and> (ptr_phi_ed (sim_ca sim) \<noteq> ptr_phi_el (sim_el sim) \<longrightarrow>
          r ! ptr_phi_ed (sim_ca sim)
            = sdot_ca * A_s (sim_ca sim) * thick (sim_ca sim) * c_F (env_c im)
              - 0 * cap (sim_bat sim) / area (sim_bat sim))"
proof -
  let ?s = "\<lparr>arrays = (\<lambda>a. [])(0 := sv, 1 := svdot, 2 := b), sim_obj = sim, expt = expr\<rparr>"
  obtain s' x where run: "residuals im t 0 1 2 ?s = (s', x)"
    by (cases "residuals im t 0 1 2 ?s")
  with assms obtain out where x: "x = Inr out" and r: "r = arrays s' 2"
    by (auto simp: call_residuals_def split: sum.splits)
  from residuals_Inr_sections[OF run[unfolded x]] obtain s1 s2 phi_ca a c cA vV pW where
    el: "electrodes im 0 1 2 ?s = (s1, Inr (phi_ca, a, c))" and
    bc: "boundary_conditions im t 2 phi_ca a c s1 = (s2, Inr (cA, vV, pW))" and
    ev: "events_tracking t cA vV pW s2 = (s', Inr ())"
    by blast
  note f1 = electrodes_frame[OF el]
  from ev have s': "arrays s' = arrays s2"
    by (auto simp: events_tracking_eq)
  from bc f1 have
    "arrays s2 2 ! ptr_phi_el (sim_el sim)
       = a * A_s (sim_an sim) * thick (sim_an sim) * c_F (env_c im)
         + 0 * cap (sim_bat sim) / area (sim_bat sim)
     \<and> (ptr_phi_ed (sim_ca sim) \<noteq> ptr_phi_el (sim_el sim) \<longrightarrow>
          arrays s2 2 ! ptr_phi_ed (sim_ca sim)
            = c * A_s (sim_ca sim) * thick (sim_ca sim) * c_F (env_c im)
              - 0 * cap (sim_bat sim) / area (sim_bat sim))"
    by (auto simp: boundary_conditions_eq Let_def expr_def split: option.splits if_splits)
  with electrodes_Inr[OF el] r s' show ?thesis
    by auto
qed

subsection \<open>The probed Jacobian\<close>

lemma broadcast_same_length:
  assumes "broadcast f xs ys = Inr zs" "length xs = n" "length ys = n"
  shows "length zs = n \<and> (\<forall>i<n. zs ! i = f (xs ! i) (ys ! i))"
  using assms by (auto simp: broadcast_def)

lemma set_column_square:
  assumes "set_column jac j vs = Inr jac'" "square n jac"
  shows "square n jac'"
  using assms
  by (auto simp: set_column_def square_def list_all_iff split: if_splits dest!: set_zip_leftD)

lemma add_column_square:
  assumes "add_column jac j vs = Inr jac'" "square n jac"
  shows "square n jac'"
  using assms
  by (auto simp: add_column_def bind_e_Inr dest: set_column_square)

lemma set_column_nth:
  assumes "set_column jac j vs = Inr jac'" "square n jac" "length vs = n" "j < n"
  shows "\<forall>i<n. \<forall>k<n. jac' ! i ! k = (if k = j then vs ! i else jac ! i ! k)"
  using assms
  by (auto simp: set_column_def square_def list_all_iff split: if_splits)

lemma column_nth:
  assumes "column jac j = Inr col" "square n jac"
  shows "length col = n \<and> (\<forall>i<n. col ! i = jac ! i ! j)"
  using assms by (auto simp: column_def square_def split: if_splits)

lemma add_column_nth:
  assumes "add_column jac j vs = Inr jac'" "square n jac" "length vs = n" "j < n"
  shows "\<forall>i<n. \<forall>k<n. jac' ! i ! k = (if k = j then jac ! i ! j + vs ! i else jac ! i ! k)"
proof -
  from assms(1) obtain col new where col: "column jac j = Inr col"
    and new: "broadcast (+) col vs = Inr new" and sc: "set_column jac j new = Inr jac'"
    by (auto simp: add_column_def bind_e_Inr)
  from column_nth[OF col assms(2)] have c: "length col = n" "\<forall>i<n. col ! i = jac ! i ! j"
    by simp_all
  from broadcast_same_length[OF new c(1) assms(3)]
  have n: "length new = n" "\<forall>i<n. new ! i = col ! i + vs ! i"
    by simp_all
  from set_column_nth[OF sc assms(2) n(1) assms(4)] n(2) c(2) show ?thesis
    by simp
qed

lemma probe_sv_square:
  assumes "probe_sv im sim sv svdot res_0 js (res, e, jac) = Inr (res', e', jac')" "square n jac"
  shows "square n jac'"
  using assms
proof (induction js arbitrary: res e jac)
  case Nil
  then show ?case by simp
next
  case (Cons j js)
  then show ?case
    by (auto simp: bind_e_Inr dest: set_column_square)
qed

lemma probe_svdot_square:
  assumes "probe_svdot im sim sv svdot res_0 js (res, e, jac) = Inr (res', e', jac')" "square n jac"
  shows "square n jac'"
  using assms
proof (induction js arbitrary: res e jac)
  case Nil
  then show ?case by simp
next
  case (Cons j js)
  then show ?case
    by (auto simp: bind_e_Inr dest: add_column_square)
qed

lemma jacobian_square:
  assumes "jacobian im sim = Inr jac"
  shows "square (length (sim_sv0 sim)) jac"
proof -
  have "square (length (sim_sv0 sim)) (replicate (length (sim_sv0 sim)) (replicate (length (sim_sv0 sim)) 0))"
    by (simp add: square_def list_all_iff)
  with assms show ?thesis
    by (auto simp: jacobian_def Let_def bind_e_Inr dest!: probe_sv_square probe_svdot_square)
qed

text \<open>
  The loops: after the columns \<open>js\<close> have been probed, each of them holds the difference of
  the baseline residual and the residual of a call at time 0 on the perturbed vector, a fresh
  buffer of zeros and the fixed experiment.
\<close>

lemma probe_sv_cols:
  assumes "probe_sv im sim sv svdot res_0 js (res, e, jac) = Inr (res', e', jac')"
      and "square n jac" and "length res_0 = n" and "length z = n"
      and "distinct js" and "\<forall>j\<in>set js. j < n"
      and "e = expr\<lparr>exp_events := exp_events e\<rparr>"
      and "\<exists>jvs. map fst jvs = written_rows sim \<and> res = assign jvs z"
  shows "square n jac' \<and> e' = expr\<lparr>exp_events := exp_events e'\<rparr>
       \<and> (\<exists>jvs. map fst jvs = written_rows sim \<and> res' = assign jvs z)
       \<and> (\<forall>j<n. j \<notin> set js \<longrightarrow> (\<forall>i<n. jac' ! i ! j = jac ! i ! j))
       \<and> (\<forall>j\<in>set js. \<exists>dsv r er. perturbed sv j = Inr dsv
             \<and> call_residuals im 0 dsv svdot z sim expr = Inr (r, er)
             \<and> (\<forall>i<n. jac' ! i ! j = res_0 ! i - r ! i))"
  using assms
proof (induction js arbitrary: res e jac)
  case Nil
  then show ?case by simp
next
  case (Cons j js)
  from Cons.prems(1) obtain dsv res1 e1 dres jac1 where
    p: "perturbed sv j = Inr dsv" and
    c: "call_residuals im 0 dsv svdot res sim e = Inr (res1, e1)" and
    d: "broadcast (-) res_0 res1 = Inr dres" and
    s: "set_column jac j dres = Inr jac1" and
    rec: "probe_sv im sim sv svdot res_0 js (res1, e1, jac1) = Inr (res', e', jac')"
    by (auto simp: bind_e_Inr)
  from Cons.prems have j: "j < n" "j \<notin> set js" and js: "distinct js" "\<forall>j\<in>set js. j < n"
    by auto
  from Cons.prems(8) obtain jvs where jvs: "map fst jvs = written_rows sim" "res = assign jvs z"
    by blast
  from call_residuals_fresh[OF c Cons.prems(7) jvs(2,1)]
  have fresh: "\<exists>e0. call_residuals im 0 dsv svdot z sim expr = Inr (res1, e0)"
    and w1: "\<exists>ivs. map fst ivs = written_rows sim \<and> res1 = assign ivs z"
    by simp_all
  from w1 Cons.prems(4) have r1: "length res1 = n"
    by (auto simp: length_assign)
  from call_residuals_Inr[OF c] Cons.prems(7)
  have e1: "e1 = expr\<lparr>exp_events := exp_events e1\<rparr>"
    by (simp add: expr_fields)
  from broadcast_same_length[OF d Cons.prems(3) r1]
  have dres: "length dres = n" "\<forall>i<n. dres ! i = res_0 ! i - res1 ! i"
    by simp_all
  note sq1 = set_column_square[OF s Cons.prems(2)]
  note col1 = set_column_nth[OF s Cons.prems(2) dres(1) j(1)]
  note IH = Cons.IH[OF rec sq1 Cons.prems(3,4) js e1 w1]
  from IH have A: "square n jac'" "e' = expr\<lparr>exp_events := exp_events e'\<rparr>"
    "\<exists>jvs. map fst jvs = written_rows sim \<and> res' = assign jvs z"
    by simp_all
  from IH have keep: "\<forall>k<n. k \<notin> set js \<longrightarrow> (\<forall>i<n. jac' ! i ! k = jac1 ! i ! k)"
    by simp
  from IH have done_js: "\<forall>k\<in>set js. \<exists>dsv r er. perturbed sv k = Inr dsv
             \<and> call_residuals im 0 dsv svdot z sim expr = Inr (r, er)
             \<and> (\<forall>i<n. jac' ! i ! k = res_0 ! i - r ! i)"
    by simp
  have B: "\<forall>k<n. k \<notin> set (j # js) \<longrightarrow> (\<forall>i<n. jac' ! i ! k = jac ! i ! k)"
    using keep col1 by simp
  have "\<forall>i<n. jac' ! i ! j = res_0 ! i - res1 ! i"
    using keep col1 j dres(2) by simp
  with p fresh have here: "\<exists>dsv r er. perturbed sv j = Inr dsv
             \<and> call_residuals im 0 dsv svdot z sim expr = Inr (r, er)
             \<and> (\<forall>i<n. jac' ! i ! j = res_0 ! i - r ! i)"
    by blast
  have C: "\<forall>k\<in>set (j # js). \<exists>dsv r er. perturbed sv k = Inr dsv
             \<and> call_residuals im 0 dsv svdot z sim expr = Inr (r, er)
             \<and> (\<forall>i<n. jac' ! i ! k = res_0 ! i - r ! i)"
    using here done_js by simp
  from A B C show ?case
    by blast
qed

lemma probe_svdot_cols:
  assumes "probe_svdot im sim sv svdot res_0 js (res, e, jac) = Inr (res', e', jac')"
      and "square n jac" and "length res_0 = n" and "length z = n"
      and "distinct js" and "\<forall>j\<in>set js. j < n"
      and "e = expr\<lparr>exp_events := exp_events e\<rparr>"
      and "\<exists>jvs. map fst jvs = written_rows sim \<and> res = assign jvs z"
  shows "square n jac' \<and> e' = expr\<lparr>exp_events := exp_events e'\<rparr>
       \<and> (\<exists>jvs. map fst jvs = written_rows sim \<and> res' = assign jvs z)
       \<and> (\<forall>j<n. j \<notin> set js \<longrightarrow> (\<forall>i<n. jac' ! i ! j = jac ! i ! j))
       \<and> (\<forall>j\<in>set js. \<exists>dsvdot r er. perturbed svdot j = Inr dsvdot
             \<and> call_residuals im 0 sv dsvdot z sim expr = Inr (r, er)
             \<and> (\<forall>i<n. jac' ! i ! j = jac ! i ! j + (res_0 ! i - r ! i)))"
  using assms
proof (induction js arbitrary: res e jac)
  case Nil
  then show ?case by simp
next
  case (Cons j js)
  from Cons.prems(1) obtain dsvdot res1 e1 dres jac1 where
    p: "perturbed svdot j = Inr dsvdot" and
    c: "call_residuals im 0 sv dsvdot res sim e = Inr (res1, e1)" and
    d: "broadcast (-) res_0 res1 = Inr dres" and
    s: "add_column jac j dres = Inr jac1" and
    rec: "probe_svdot im sim sv svdot res_0 js (res1, e1, jac1) = Inr (res', e', jac')"
    by (auto simp: bind_e_Inr)
  from Cons.prems have j: "j < n" "j \<notin> set js" and js: "distinct js" "\<forall>j\<in>set js. j < n"
    by auto
  from Cons.prems(8) obtain jvs where jvs: "map fst jvs = written_rows sim" "res = assign jvs z"
    by blast
  from call_residuals_fresh[OF c Cons.prems(7) jvs(2,1)]
  have fresh: "\<exists>e0. call_residuals im 0 sv dsvdot z sim expr = Inr (res1, e0)"
    and w1: "\<exists>ivs. map fst ivs = written_rows sim \<and> res1 = assign ivs z"
    by simp_all
  from w1 Cons.prems(4) have r1: "length res1 = n"
    by (auto simp: length_assign)
  from call_residuals_Inr[OF c] Cons.prems(7)
  have e1: "e1 = expr\<lparr>exp_events := exp_events e1\<rparr>"
    by (simp add: expr_fields)
  from broadcast_same_length[OF d Cons.prems(3) r1]
  have dres: "length dres = n" "\<forall>i<n. dres ! i = res_0 ! i - res1 ! i"
    by simp_all
  note sq1 = add_column_square[OF s Cons.prems(2)]
  note col1 = add_column_nth[OF s Cons.prems(2) dres(1) j(1)]
  note IH = Cons.IH[OF rec sq1 Cons.prems(3,4) js e1 w1]
  from IH have A: "square n jac'" "e' = expr\<lparr>exp_events := exp_events e'\<rparr>"
    "\<exists>jvs. map fst jvs = written_rows sim \<and> res' = assign jvs z"
    by simp_all
  from IH have keep: "\<forall>k<n. k \<notin> set js \<longrightarrow> (\<forall>i<n. jac' ! i ! k = jac1 ! i ! k)"
    by simp
  from IH have done_js: "\<forall>k\<in>set js. \<exists>dsvdot r er. perturbed svdot k = Inr dsvdot
             \<and> call_residuals im 0 sv dsvdot z sim expr = Inr (r, er)
             \<and> (\<forall>i<n. jac' ! i ! k = jac1 ! i ! k + (res_0 ! i - r ! i))"
    by simp
  have B: "\<forall>k<n. k \<notin> set (j # js) \<longrightarrow> (\<forall>i<n. jac' ! i ! k = jac ! i ! k)"
    using keep col1 by simp
  have "\<forall>i<n. jac' ! i ! j = jac ! i ! j + (res_0 ! i - res1 ! i)"
    using keep col1 j dres(2) by simp
  with p fresh have here: "\<exists>dsvdot r er. perturbed svdot j = Inr dsvdot
             \<and> call_residuals im 0 sv dsvdot z sim expr = Inr (r, er)
             \<and> (\<forall>i<n. jac' ! i ! j = jac ! i ! j + (res_0 ! i - r ! i))"
    by blast
  have old: "\<forall>k\<in>set js. \<forall>i<n. jac1 ! i ! k = jac ! i ! k"
    using col1 j js by auto
  have C: "\<forall>k\<in>set (j # js). \<exists>dsvdot r er. perturbed svdot k = Inr dsvdot
             \<and> call_residuals im 0 sv dsvdot z sim expr = Inr (r, er)
             \<and> (\<forall>i<n. jac' ! i ! k = jac ! i ! k + (res_0 ! i - r ! i))"
    using here done_js old by simp
  from A B C show ?case
    by blast
qed

lemma jacobian_cols:
  assumes "jacobian im sim = Inr jac"
  shows "\<exists>res_0 e_0.
      call_residuals im 0 (sim_sv0 sim) (sim_svdot0 sim) (replicate (length (sim_sv0 sim)) 0) sim expr
        = Inr (res_0, e_0)
    \<and> (\<forall>j<length (sim_sv0 sim). \<exists>dsv r1 e1 dsvdot r2 e2.
          perturbed (sim_sv0 sim) j = Inr dsv
        \<and> call_residuals im 0 dsv (sim_svdot0 sim) (replicate (length (sim_sv0 sim)) 0) sim expr
            = Inr (r1, e1)
        \<and> perturbed (sim_svdot0 sim) j = Inr dsvdot
        \<and> call_residuals im 0 (sim_sv0 sim) dsvdot (replicate (length (sim_sv0 sim)) 0) sim expr
            = Inr (r2, e2)
        \<and> (\<forall>i<length (sim_sv0 sim). jac ! i ! j = (res_0 ! i - r1 ! i) + (res_0 ! i - r2 ! i)))"
proof -
  let ?N = "length (sim_sv0 sim)"
  let ?sv = "sim_sv0 sim" and ?svdot = "sim_svdot0 sim"
  let ?z = "replicate ?N (0 :: real)"
  let ?Z = "replicate ?N (replicate ?N (0 :: real))"
  from assms obtain res_0 e_0 res1 e1 jac1 res2 e2 where
    c0: "call_residuals im 0 ?sv ?svdot ?z sim expr = Inr (res_0, e_0)" and
    l1: "probe_sv im sim ?sv ?svdot res_0 [0..<?N] (res_0, e_0, ?Z) = Inr (res1, e1, jac1)" and
    l2: "probe_svdot im sim ?sv ?svdot res_0 [0..<?N] (res1, e1, jac1) = Inr (res2, e2, jac)"
    by (auto simp: jacobian_def Let_def bind_e_Inr)
  have sq0: "square ?N ?Z"
    by (simp add: square_def list_all_iff)
  have lz: "length ?z = ?N"
    by simp
  from call_residuals_Inr[OF c0] have r0: "length res_0 = ?N"
    and e0: "e_0 = expr\<lparr>exp_events := exp_events e_0\<rparr>"
    by (simp_all add: expr_fields expr_def)
  have m: "exp_mode expr = Some ''current''" "exp_units expr = Some ''C''"
    by (simp_all add: expr_def)
  from call_residuals_buffer[OF c0 m] obtain ivs where
    i: "map fst ivs = written_rows sim" and
    c: "\<forall>b0 ev0. length b0 = length ?z \<longrightarrow>
          (\<exists>e0'. call_residuals im 0 ?sv ?svdot b0 sim (expr\<lparr>exp_events := ev0\<rparr>) = Inr (assign ivs b0, e0'))"
    by blast
  have "expr\<lparr>exp_events := None\<rparr> = expr"
    by (simp add: expr_def)
  with c[rule_format, of ?z None] c0 have "res_0 = assign ivs ?z"
    by auto
  with i have w0: "\<exists>jvs. map fst jvs = written_rows sim \<and> res_0 = assign jvs ?z"
    by blast
  have ds: "distinct [0..<?N]" "\<forall>j\<in>set [0..<?N]. j < ?N"
    by simp_all
  note P1 = probe_sv_cols[OF l1 sq0 r0 lz ds e0 w0]
  from P1 have sq1: "square ?N jac1" and e1: "e1 = expr\<lparr>exp_events := exp_events e1\<rparr>"
    and w1: "\<exists>jvs. map fst jvs = written_rows sim \<and> res1 = assign jvs ?z"
    by simp_all
  from P1 have c1: "\<forall>j<?N. \<exists>dsv r er. perturbed ?sv j = Inr dsv
             \<and> call_residuals im 0 dsv ?svdot ?z sim expr = Inr (r, er)
             \<and> (\<forall>i<?N. jac1 ! i ! j = res_0 ! i - r ! i)"
    by simp
  note P2 = probe_svdot_cols[OF l2 sq1 r0 lz ds e1 w1]
  from P2 have c2: "\<forall>j<?N. \<exists>dsvdot r er. perturbed ?svdot j = Inr dsvdot
             \<and> call_residuals im 0 ?sv dsvdot ?z sim expr = Inr (r, er)
             \<and> (\<forall>i<?N. jac ! i ! j = jac1 ! i ! j + (res_0 ! i - r ! i))"
    by simp
  have "\<exists>dsv r1 e1 dsvdot r2 e2.
          perturbed ?sv j = Inr dsv
        \<and> call_residuals im 0 dsv ?svdot ?z sim expr = Inr (r1, e1)
        \<and> perturbed ?svdot j = Inr dsvdot
        \<and> call_residuals im 0 ?sv dsvdot ?z sim expr = Inr (r2, e2)
        \<and> (\<forall>i<?N. jac ! i ! j = (res_0 ! i - r1 ! i) + (res_0 ! i - r2 ! i))" if j: "j < ?N" for j
  proof -
    from c1 j obtain dsv r1 e1 where
      a: "perturbed ?sv j = Inr dsv"
         "call_residuals im 0 dsv ?svdot ?z sim expr = Inr (r1, e1)"
         "\<forall>i<?N. jac1 ! i ! j = res_0 ! i - r1 ! i"
      by blast
    from c2 j obtain dsvdot r2 e2 where
      b: "perturbed ?svdot j = Inr dsvdot"
         "call_residuals im 0 ?sv dsvdot ?z sim expr = Inr (r2, e2)"
         "\<forall>i<?N. jac ! i ! j = jac1 ! i ! j + (res_0 ! i - r2 ! i)"
      by blast
    from a(3) b(3) have "\<forall>i<?N. jac ! i ! j = (res_0 ! i - r1 ! i) + (res_0 ! i - r2 ! i)"
      by simp
    with a(1,2) b(1,2) show ?thesis
      by blast
  qed
  with c0 show ?thesis
    by blast
qed

subsection \<open>The bands\<close>

lemma set_where_nonzero: "set (where_nonzero xs) = {k. k < length xs \<and> xs ! k \<noteq> 0}"
  by (auto simp: where_nonzero_def)

lemma sorted_where_nonzero: "sorted (where_nonzero xs)"
  by (simp add: where_nonzero_def sorted_wrt_filter)

lemma sorted_hd_le: "sorted xs \<Longrightarrow> x \<in> set xs \<Longrightarrow> hd xs \<le> (x :: nat)"
  by (cases xs) auto

lemma sorted_le_last: "sorted xs \<Longrightarrow> x \<in> set xs \<Longrightarrow> (x :: nat) \<le> last xs"
  by (induction xs) (auto split: if_splits)

text \<open>One row of the loop that finds the bands.\<close>

lemma lower_step:
  assumes "i \<le> length row"
  shows "let l_inds = where_nonzero (take i row);
             l' = (if length l_inds \<ge> 1 \<and> i - hd l_inds > l0 then i - hd l_inds else l0)
         in l0 \<le> l' \<and> (\<forall>j<i. row ! j \<noteq> 0 \<longrightarrow> i - j \<le> l')
            \<and> (l' = l0 \<or> (\<exists>j<i. row ! j \<noteq> 0 \<and> i - j = l'))"
proof -
  let ?L = "where_nonzero (take i row)"
  have set: "set ?L = {k. k < i \<and> row ! k \<noteq> 0}"
    using assms by (auto simp: set_where_nonzero)
  show ?thesis
  proof (cases "?L = []")
    case True
    with set show ?thesis by (auto simp: Let_def)
  next
    case ne: False
    then have len: "1 \<le> length ?L"
      by (cases ?L) auto
    from ne have "hd ?L \<in> set ?L"
      by simp
    with set have mem: "hd ?L < i" "row ! hd ?L \<noteq> 0"
      by auto
    have min: "hd ?L \<le> j" if "j < i" "row ! j \<noteq> 0" for j
    proof -
      from that set have "j \<in> set ?L" by simp
      then show ?thesis
        by (rule sorted_hd_le[OF sorted_where_nonzero])
    qed
    have bound: "i - j \<le> i - hd ?L" if "j < i" "row ! j \<noteq> 0" for j
      using min[OF that] by arith
    show ?thesis
    proof (cases "i - hd ?L > l0")
      case True
      with len mem bound show ?thesis
        by (auto simp: Let_def)
    next
      case False
      then have "i - j \<le> l0" if "j < i" "row ! j \<noteq> 0" for j
        using bound[OF that] by arith
      with False show ?thesis
        by (auto simp: Let_def)
    qed
  qed
qed

lemma upper_step:
  assumes "i \<le> length row" "length row = n"
  shows "let u_inds = map (\<lambda>k. i + k) (where_nonzero (drop i row));
             u' = (if length u_inds \<ge> 1 \<and> last u_inds - i > u0 then last u_inds - i else u0)
         in u0 \<le> u' \<and> (\<forall>j<n. i \<le> j \<and> row ! j \<noteq> 0 \<longrightarrow> j - i \<le> u')
            \<and> (u' = u0 \<or> (\<exists>j<n. i \<le> j \<and> row ! j \<noteq> 0 \<and> j - i = u'))"
proof -
  let ?W = "where_nonzero (drop i row)"
  let ?U = "map (\<lambda>k. i + k) ?W"
  have set: "set ?W = {k. i + k < n \<and> row ! (i + k) \<noteq> 0}"
    using assms by (auto simp: set_where_nonzero)
  show ?thesis
  proof (cases "?W = []")
    case True
    have "row ! j = 0" if "j < n" "i \<le> j" for j
    proof -
      from that have "j - i \<notin> set ?W \<or> row ! j = 0"
        using True by simp
      with set that show ?thesis
        by auto
    qed
    with True show ?thesis
      by (auto simp: Let_def)
  next
    case ne: False
    then have len: "1 \<le> length ?U"
      by (cases ?W) auto
    from ne have last: "last ?U = i + last ?W"
      by (simp add: last_map)
    from ne have "last ?W \<in> set ?W"
      by simp
    with set have mem: "i + last ?W < n" "row ! (i + last ?W) \<noteq> 0"
      by auto
    have bound: "j - i \<le> last ?W" if "j < n" "i \<le> j" "row ! j \<noteq> 0" for j
    proof -
      from that set have "j - i \<in> set ?W" by simp
      then show ?thesis
        by (rule sorted_le_last[OF sorted_where_nonzero])
    qed
    show ?thesis
    proof (cases "last ?W > u0")
      case True
      with len mem bound last show ?thesis
        by (auto simp: Let_def intro!: exI[of _ "i + last ?W"])
    next
      case False
      then have "j - i \<le> u0" if "j < n" "i \<le> j" "row ! j \<noteq> 0" for j
        using bound[OF that] by arith
      with False last show ?thesis
        by (auto simp: Let_def)
    qed
  qed
qed

lemma find_bands_char:
  assumes "square n jac" "\<forall>i\<in>set ixs. i < n" "find_bands jac ixs (l0, u0) = (l, u)"
  shows "l0 \<le> l
       \<and> (\<forall>i\<in>set ixs. \<forall>j<i. jac ! i ! j \<noteq> 0 \<longrightarrow> i - j \<le> l)
       \<and> (l = l0 \<or> (\<exists>i\<in>set ixs. \<exists>j<i. jac ! i ! j \<noteq> 0 \<and> i - j = l))
       \<and> u0 \<le> u
       \<and> (\<forall>i\<in>set ixs. \<forall>j<n. i \<le> j \<and> jac ! i ! j \<noteq> 0 \<longrightarrow> j - i \<le> u)
       \<and> (u = u0 \<or> (\<exists>i\<in>set ixs. \<exists>j<n. i \<le> j \<and> jac ! i ! j \<noteq> 0 \<and> j - i = u))"
  using assms(2,3)
proof (induction ixs arbitrary: l0 u0)
  case Nil
  then show ?case by simp
next
  case (Cons i ixs)
  let ?row = "jac ! i"
  from Cons.prems(1) assms(1) have len: "length ?row = n" and i: "i \<le> length ?row"
    by (auto simp: square_def list_all_iff)
  define l1 where "l1 = (let l_inds = where_nonzero (take i ?row)
      in if length l_inds \<ge> 1 \<and> i - hd l_inds > l0 then i - hd l_inds else l0)"
  define u1 where "u1 = (let u_inds = map (\<lambda>k. i + k) (where_nonzero (drop i ?row))
      in if length u_inds \<ge> 1 \<and> last u_inds - i > u0 then last u_inds - i else u0)"
  from lower_step[OF i, of l0] have L:
    "l0 \<le> l1" "\<forall>j<i. ?row ! j \<noteq> 0 \<longrightarrow> i - j \<le> l1"
    "l1 = l0 \<or> (\<exists>j<i. ?row ! j \<noteq> 0 \<and> i - j = l1)"
    by (simp_all add: l1_def Let_def)
  from upper_step[OF i len, of u0] have U:
    "u0 \<le> u1" "\<forall>j<n. i \<le> j \<and> ?row ! j \<noteq> 0 \<longrightarrow> j - i \<le> u1"
    "u1 = u0 \<or> (\<exists>j<n. i \<le> j \<and> ?row ! j \<noteq> 0 \<and> j - i = u1)"
    by (simp_all add: u1_def Let_def)
  from Cons.prems(2) have rec: "find_bands jac ixs (l1, u1) = (l, u)"
    by (simp add: l1_def u1_def Let_def)
  from Cons.prems(1) have "\<forall>i\<in>set ixs. i < n"
    by simp
  from Cons.IH[OF this rec] have IH:
    "l1 \<le> l" "\<forall>i\<in>set ixs. \<forall>j<i. jac ! i ! j \<noteq> 0 \<longrightarrow> i - j \<le> l"
    "l = l1 \<or> (\<exists>i\<in>set ixs. \<exists>j<i. jac ! i ! j \<noteq> 0 \<and> i - j = l)"
    "u1 \<le> u" "\<forall>i\<in>set ixs. \<forall>j<n. i \<le> j \<and> jac ! i ! j \<noteq> 0 \<longrightarrow> j - i \<le> u"
    "u = u1 \<or> (\<exists>i\<in>set ixs. \<exists>j<n. i \<le> j \<and> jac ! i ! j \<noteq> 0 \<and> j - i = u)"
    by simp_all
  have c1: "l0 \<le> l" using L(1) IH(1) by simp
  have c2: "\<forall>k\<in>set (i # ixs). \<forall>j<k. jac ! k ! j \<noteq> 0 \<longrightarrow> k - j \<le> l"
    using L(2) IH(1,2) by (auto intro: le_trans)
  have c3: "l = l0 \<or> (\<exists>k\<in>set (i # ixs). \<exists>j<k. jac ! k ! j \<noteq> 0 \<and> k - j = l)"
    using L(3) IH(3) by auto
  have c4: "u0 \<le> u" using U(1) IH(4) by simp
  have c5: "\<forall>k\<in>set (i # ixs). \<forall>j<n. k \<le> j \<and> jac ! k ! j \<noteq> 0 \<longrightarrow> j - k \<le> u"
    using U(2) IH(4,5) by (auto intro: le_trans)
  have c6: "u = u0 \<or> (\<exists>k\<in>set (i # ixs). \<exists>j<n. k \<le> j \<and> jac ! k ! j \<noteq> 0 \<and> j - k = u)"
    using U(3) IH(6) by auto
  from c1 c2 c3 c4 c5 c6 show ?case
    by blast
qed

lemma pattern_nth:
  assumes "square n jac" "i < n" "j < n"
  shows "length (pattern jac) = n \<and> length (pattern jac ! i) = n
       \<and> pattern jac ! i ! j = (if jac ! i ! j \<noteq> 0 then 1 else 0)"
  using assms by (auto simp: pattern_def square_def list_all_iff)

subsection \<open>Evaluation on the concrete cell\<close>

lemmas demo_defs = demo_c_def demo_env_def demo_an_def demo_ca_def demo_sim_def demo_mem_def
  demo_y_def expr_def volt_y_def volt_exp_def odd_exp_def inert_sim_def neg_y_def

lemmas array_defs = getitem_def getitems_def last_item_def broadcast_def scale_def setitem_def
  setitems_def bind_e_def py_div_def

lemmas stmt_defs = next_do_def ret_def lift_def load_def load_items_def store_def store_items_def
  lookup_def set_events_def

lemmas residuals_defs = residuals_def boundary_conditions_def events_tracking_def returns_def
  electrodes_def solid_com_def radial_flux_def reaction_current_def array_defs stmt_defs Let_def

lemma volt_run:
  "snd (residuals demo_env 0 0 1 2 (demo_mem volt_y demo_sim volt_exp)) = Inr (Some (0, volt_rate))"
  by (simp add: residuals_defs demo_defs volt_rate_def)

lemma volt_run_pair:
  "residuals demo_env 0 0 1 2 (demo_mem volt_y demo_sim volt_exp)
     = (fst (residuals demo_env 0 0 1 2 (demo_mem volt_y demo_sim volt_exp)), Inr (Some (0, volt_rate)))"
  using volt_run by (simp add: prod_eq_iff)

lemma volt_row:
  "arrays (fst (residuals demo_env 0 0 1 2 (demo_mem volt_y demo_sim volt_exp))) 2 ! 3 = 6 * volt_rate"
  by (simp add: residuals_defs demo_defs volt_rate_def)

lemma volt_rate_nonzero: "volt_rate \<noteq> 0"
  by (simp add: volt_rate_def demo_c_def)

lemma demo_electrodes:
  "electrodes demo_env 0 1 2 (demo_mem demo_y demo_sim odd_exp)
     = (fst (electrodes demo_env 0 1 2 (demo_mem demo_y demo_sim odd_exp)), Inr (0, 0, 0))"
  by (simp add: residuals_defs demo_defs prod_eq_iff)

lemmas bw_defs = bandwidth_def jacobian_def probe_sv.simps probe_svdot.simps call_residuals_def
  perturbed_def set_column_def add_column_def column_def where_nonzero_def pattern_def
  find_bands.simps upt_rec

lemma inert_bandwidth:
  "bandwidth demo_env inert_sim =
     Inr (1, 1,
          [[1, 1, 0, 0, 0, 0, 0], [1, 1, 0, 0, 0, 0, 0], [0, 0, 1, 0, 0, 0, 0],
           [0, 0, 0, 0, 0, 0, 0], [0, 0, 0, 0, 1, 1, 0], [0, 0, 0, 0, 1, 1, 0],
           [0, 0, 0, 0, 0, 0, 0]])"
  by (simp add: bw_defs residuals_defs demo_defs)

lemma neg_y_perturbed:
  "perturbed neg_y 3 = Inr [1 / 2, 1 / 2, 0, - 2 + 1 / 10 ^ 6, 1 / 2, 1 / 2, 2]"
  by (simp add: perturbed_def bind_e_def getitem_def setitem_def neg_y_def)

section \<open>The claims\<close>

text \<open>
  C1. In every returning call of \<^verbatim>\<open>residuals\<close> the reaction rate of each electrode, which
  the electrode sections hand to the boundary conditions and which the call returns when the
  flag \<^verbatim>\<open>post\<close> is set, is the Butler-Volmer expression
  \<open>i0 / F * (exp (alpha_a * F * eta / R / T) - exp (- alpha_c * F * eta / R / T))\<close> with
  \<open>eta\<close> the electrode potential minus the electrolyte potential minus \<^verbatim>\<open>get_Eeq\<close> at the
  surface fraction, \<open>i0\<close> the value of \<^verbatim>\<open>get_i0\<close> at the surface fraction, \<^verbatim>\<open>el.Li_0\<close> and
  the temperature, and the surface fraction the entry of \<^verbatim>\<open>sv\<close> at the last index of the
  electrode's \<^verbatim>\<open>r_ptr['Li_ed']\<close>.
\<close>

theorem residuals_reaction_rates:
  assumes "residuals im t sv svdot res s = (s', Inr out)"
  shows "let c = env_c im; sim = sim_obj s; T = temp (sim_bat sim); y = arrays s sv;
             phi_el = y ! ptr_phi_el (sim_el sim);
             rate = (\<lambda>ed.
               let x = y ! last (r_ptr_Li_ed ed);
                   eta = y ! ptr_phi_ed ed - phi_el - get_Eeq ed x T;
                   i0 = get_i0 ed x (Li_0 (sim_el sim)) T
               in i0 / c_F c * (exp (alpha_a ed * c_F c * eta / c_R c / T)
                               - exp (- alpha_c ed * c_F c * eta / c_R c / T)))
         in (\<exists>s1 phi_ca.
               electrodes im sv svdot res s = (s1, Inr (phi_ca, rate (sim_an sim), rate (sim_ca sim))))
          \<and> out = (if flag_post sim then Some (rate (sim_an sim), rate (sim_ca sim)) else None)"
proof -
  from residuals_Inr_electrodes[OF assms] obtain s1 phi_ca a b where
    el: "electrodes im sv svdot res s = (s1, Inr (phi_ca, a, b))" and
    out: "out = (if flag_post (sim_obj s) then Some (a, b) else None)"
    by auto
  from electrodes_Inr[OF el] have
    "a = get_i0 (sim_an (sim_obj s)) (arrays s sv ! last (r_ptr_Li_ed (sim_an (sim_obj s))))
           (Li_0 (sim_el (sim_obj s))) (temp (sim_bat (sim_obj s))) / c_F (env_c im) *
         (exp (alpha_a (sim_an (sim_obj s)) * c_F (env_c im) *
                 (arrays s sv ! ptr_phi_ed (sim_an (sim_obj s))
                  - arrays s sv ! ptr_phi_el (sim_el (sim_obj s))
                  - get_Eeq (sim_an (sim_obj s))
                      (arrays s sv ! last (r_ptr_Li_ed (sim_an (sim_obj s)))) (temp (sim_bat (sim_obj s))))
                 / c_R (env_c im) / temp (sim_bat (sim_obj s)))
          - exp (- alpha_c (sim_an (sim_obj s)) * c_F (env_c im) *
                 (arrays s sv ! ptr_phi_ed (sim_an (sim_obj s))
                  - arrays s sv ! ptr_phi_el (sim_el (sim_obj s))
                  - get_Eeq (sim_an (sim_obj s))
                      (arrays s sv ! last (r_ptr_Li_ed (sim_an (sim_obj s)))) (temp (sim_bat (sim_obj s))))
                 / c_R (env_c im) / temp (sim_bat (sim_obj s))))"
    and
    "b = get_i0 (sim_ca (sim_obj s)) (arrays s sv ! last (r_ptr_Li_ed (sim_ca (sim_obj s))))
           (Li_0 (sim_el (sim_obj s))) (temp (sim_bat (sim_obj s))) / c_F (env_c im) *
         (exp (alpha_a (sim_ca (sim_obj s)) * c_F (env_c im) *
                 (arrays s sv ! ptr_phi_ed (sim_ca (sim_obj s))
                  - arrays s sv ! ptr_phi_el (sim_el (sim_obj s))
                  - get_Eeq (sim_ca (sim_obj s))
                      (arrays s sv ! last (r_ptr_Li_ed (sim_ca (sim_obj s)))) (temp (sim_bat (sim_obj s))))
                 / c_R (env_c im) / temp (sim_bat (sim_obj s)))
          - exp (- alpha_c (sim_ca (sim_obj s)) * c_F (env_c im) *
                 (arrays s sv ! ptr_phi_ed (sim_ca (sim_obj s))
                  - arrays s sv ! ptr_phi_el (sim_el (sim_obj s))
                  - get_Eeq (sim_ca (sim_obj s))
                      (arrays s sv ! last (r_ptr_Li_ed (sim_ca (sim_obj s)))) (temp (sim_bat (sim_obj s))))
                 / c_R (env_c im) / temp (sim_bat (sim_obj s))))"
    by (auto simp: reaction_current_Inr last_map)
  with el out show ?thesis
    unfolding Let_def by blast
qed

theorem residuals_reaction_rates_witness:
  "residuals demo_env 0 0 1 2 (demo_mem volt_y demo_sim volt_exp)
     = (fst (residuals demo_env 0 0 1 2 (demo_mem volt_y demo_sim volt_exp)), Inr (Some (0, volt_rate)))
   \<and> (let c = env_c demo_env; sim = sim_obj (demo_mem volt_y demo_sim volt_exp);
           T = temp (sim_bat sim); y = arrays (demo_mem volt_y demo_sim volt_exp) 0;
           phi_el = y ! ptr_phi_el (sim_el sim);
           rate = (\<lambda>ed.
             let x = y ! last (r_ptr_Li_ed ed);
                 eta = y ! ptr_phi_ed ed - phi_el - get_Eeq ed x T;
                 i0 = get_i0 ed x (Li_0 (sim_el sim)) T
             in i0 / c_F c * (exp (alpha_a ed * c_F c * eta / c_R c / T)
                             - exp (- alpha_c ed * c_F c * eta / c_R c / T)))
       in (\<exists>s1 phi_ca.
             electrodes demo_env 0 1 2 (demo_mem volt_y demo_sim volt_exp)
               = (s1, Inr (phi_ca, rate (sim_an sim), rate (sim_ca sim))))
        \<and> Some (0, volt_rate)
            = (if flag_post sim then Some (rate (sim_an sim), rate (sim_ca sim)) else None))"
  by (rule conjI[OF volt_run_pair residuals_reaction_rates[OF volt_run_pair]])

text \<open>
  C2, as stated, fails on the concrete cell: in voltage mode the row of the electrolyte
  potential is not the sum of the two reaction rates scaled by reactive area, thickness and
  Faraday's constant (the scaling of the current-mode rows).
\<close>

theorem voltage_row_not_faraday_scaled:
  "snd (residuals demo_env 0 0 1 2 (demo_mem volt_y demo_sim volt_exp)) = Inr (Some (0, volt_rate))
   \<and> arrays (fst (residuals demo_env 0 0 1 2 (demo_mem volt_y demo_sim volt_exp))) 2
        ! ptr_phi_el (sim_el demo_sim)
      \<noteq> 0 * A_s demo_an * thick demo_an * c_F demo_c
        + volt_rate * A_s demo_ca * thick demo_ca * c_F demo_c"
proof -
  have "arrays (fst (residuals demo_env 0 0 1 2 (demo_mem volt_y demo_sim volt_exp))) 2
        ! ptr_phi_el (sim_el demo_sim) = 6 * volt_rate"
    using volt_row by (simp add: demo_sim_def)
  moreover have "0 * A_s demo_an * thick demo_an * c_F demo_c
        + volt_rate * A_s demo_ca * thick demo_ca * c_F demo_c = 6 * volt_rate * (964853321 / 10)"
    by (simp add: demo_an_def demo_ca_def demo_c_def)
  ultimately show ?thesis
    using volt_run volt_rate_nonzero by simp
qed

text \<open>
  C2, as amended. In voltage mode a returning call of \<^verbatim>\<open>residuals\<close> overrides exactly two rows
  of what the electrode sections left in \<open>res\<close>: the row of the cathode potential with the
  cathode potential minus the applied voltage at \<open>t\<close>, and then the row of the electrolyte
  potential with \<open>sdot_an * A_s * thick\<close> of the anode plus \<open>sdot_ca * A_s * thick\<close> of
  the cathode, the reaction rates scaled by reactive area and thickness without Faraday's
  constant.
\<close>

theorem residuals_voltage_rows:
  assumes "residuals im t sv svdot res s = (s', Inr out)"
      and "exp_mode (expt s) = Some ''voltage''" and "exp_value (expt s) = Some v"
  shows "let sim = sim_obj s; an = sim_an sim; ca = sim_ca sim; el = sim_el sim;
             T = temp (sim_bat sim); y = arrays s sv
         in \<exists>s1 sdot_an sdot_ca.
              electrodes im sv svdot res s = (s1, Inr (y ! ptr_phi_ed ca, sdot_an, sdot_ca))
            \<and> reaction_current (env_c im) an el T (y ! ptr_phi_ed an) (y ! ptr_phi_el el)
                 (map (\<lambda>i. y ! i) (r_ptr_Li_ed an)) = Inr sdot_an
            \<and> reaction_current (env_c im) ca el T (y ! ptr_phi_ed ca) (y ! ptr_phi_el el)
                 (map (\<lambda>i. y ! i) (r_ptr_Li_ed ca)) = Inr sdot_ca
            \<and> ptr_phi_ed ca < length (arrays s1 res) \<and> ptr_phi_el el < length (arrays s1 res)
            \<and> arrays s' res = (arrays s1 res)
                 [ptr_phi_ed ca := y ! ptr_phi_ed ca - v t,
                  ptr_phi_el el := sdot_an * A_s an * thick an + sdot_ca * A_s ca * thick ca]
            \<and> (ptr_phi_ed ca \<noteq> ptr_phi_el el \<longrightarrow>
                 arrays s' res ! ptr_phi_ed ca = y ! ptr_phi_ed ca - v t)
            \<and> arrays s' res ! ptr_phi_el el = sdot_an * A_s an * thick an + sdot_ca * A_s ca * thick ca"
proof -
  from residuals_Inr_sections[OF assms(1)] obtain s1 s2 phi_ca a b cA vV pW where
    el: "electrodes im sv svdot res s = (s1, Inr (phi_ca, a, b))" and
    bc: "boundary_conditions im t res phi_ca a b s1 = (s2, Inr (cA, vV, pW))" and
    ev: "events_tracking t cA vV pW s2 = (s', Inr ())"
    by blast
  note f1 = electrodes_frame[OF el]
  note e1 = electrodes_Inr[OF el]
  from ev have s': "arrays s' = arrays s2"
    by (auto simp: events_tracking_eq)
  from bc assms(2,3) f1 have
    "ptr_phi_ed (sim_ca (sim_obj s)) < length (arrays s1 res)
     \<and> ptr_phi_el (sim_el (sim_obj s)) < length (arrays s1 res)
     \<and> arrays s2 res = (arrays s1 res)
         [ptr_phi_ed (sim_ca (sim_obj s)) := phi_ca - v t,
          ptr_phi_el (sim_el (sim_obj s)) :=
            a * A_s (sim_an (sim_obj s)) * thick (sim_an (sim_obj s))
            + b * A_s (sim_ca (sim_obj s)) * thick (sim_ca (sim_obj s))]"
    by (auto simp: boundary_conditions_eq Let_def split: option.splits if_splits)
  with el e1 s' show ?thesis
    by (auto simp: Let_def)
qed

theorem residuals_voltage_rows_witness:
  "residuals demo_env 0 0 1 2 (demo_mem volt_y demo_sim volt_exp)
     = (fst (residuals demo_env 0 0 1 2 (demo_mem volt_y demo_sim volt_exp)), Inr (Some (0, volt_rate)))
   \<and> exp_mode (expt (demo_mem volt_y demo_sim volt_exp)) = Some ''voltage''
   \<and> exp_value (expt (demo_mem volt_y demo_sim volt_exp)) = Some (\<lambda>t. 4)
   \<and> (let sim = sim_obj (demo_mem volt_y demo_sim volt_exp);
           an = sim_an sim; ca = sim_ca sim; el = sim_el sim;
           T = temp (sim_bat sim); y = arrays (demo_mem volt_y demo_sim volt_exp) 0
       in \<exists>s1 sdot_an sdot_ca.
            electrodes demo_env 0 1 2 (demo_mem volt_y demo_sim volt_exp)
              = (s1, Inr (y ! ptr_phi_ed ca, sdot_an, sdot_ca))
          \<and> reaction_current (env_c demo_env) an el T (y ! ptr_phi_ed an) (y ! ptr_phi_el el)
               (map (\<lambda>i. y ! i) (r_ptr_Li_ed an)) = Inr sdot_an
          \<and> reaction_current (env_c demo_env) ca el T (y ! ptr_phi_ed ca) (y ! ptr_phi_el el)
               (map (\<lambda>i. y ! i) (r_ptr_Li_ed ca)) = Inr sdot_ca
          \<and> ptr_phi_ed ca < length (arrays s1 2) \<and> ptr_phi_el el < length (arrays s1 2)
          \<and> arrays (fst (residuals demo_env 0 0 1 2 (demo_mem volt_y demo_sim volt_exp))) 2
              = (arrays s1 2)
                 [ptr_phi_ed ca := y ! ptr_phi_ed ca - (\<lambda>t. 4) 0,
                  ptr_phi_el el := sdot_an * A_s an * thick an + sdot_ca * A_s ca * thick ca]
          \<and> (ptr_phi_ed ca \<noteq> ptr_phi_el el \<longrightarrow>
               arrays (fst (residuals demo_env 0 0 1 2 (demo_mem volt_y demo_sim volt_exp))) 2
                 ! ptr_phi_ed ca = y ! ptr_phi_ed ca - (\<lambda>t. 4) 0)
          \<and> arrays (fst (residuals demo_env 0 0 1 2 (demo_mem volt_y demo_sim volt_exp))) 2
               ! ptr_phi_el el = sdot_an * A_s an * thick an + sdot_ca * A_s ca * thick ca)"
proof -
  have m: "exp_mode (expt (demo_mem volt_y demo_sim volt_exp)) = Some ''voltage''"
    and v: "exp_value (expt (demo_mem volt_y demo_sim volt_exp)) = Some (\<lambda>t. 4)"
    by (simp_all add: demo_defs)
  show ?thesis
    by (intro conjI residuals_voltage_rows[OF volt_run_pair m v] volt_run_pair m v)
qed

text \<open>
  C3. In every returning call of \<^verbatim>\<open>residuals\<close>, for the anode and for the cathode, the flux
  vector \<^verbatim>\<open>Js\<close> that enters the assignment of the solid-phase conservation of mass has the
  first entry 0 and the last entry \<open>- sdot\<close>, with \<open>sdot\<close> the reaction rate of that
  electrode.
\<close>

theorem residuals_flux_faces:
  assumes "residuals im t sv svdot res s = (s', Inr out)"
  shows "let sim = sim_obj s; an = sim_an sim; ca = sim_ca sim; el = sim_el sim;
             T = temp (sim_bat sim); y = arrays s sv;
             xs_an = map (\<lambda>i. y ! i) (r_ptr_Li_ed an);
             xs_ca = map (\<lambda>i. y ! i) (r_ptr_Li_ed ca)
         in \<exists>sdot_an sdot_ca Js_an Js_ca s_a s1.
              reaction_current (env_c im) an el T (y ! ptr_phi_ed an) (y ! ptr_phi_el el) xs_an = Inr sdot_an
            \<and> reaction_current (env_c im) ca el T (y ! ptr_phi_ed ca) (y ! ptr_phi_el el) xs_ca = Inr sdot_ca
            \<and> radial_flux im an T xs_an (scale (Li_max an) xs_an) sdot_an = Inr Js_an
            \<and> radial_flux im ca T xs_ca (scale (Li_max ca) xs_ca) sdot_ca = Inr Js_ca
            \<and> solid_com im an svdot res Js_an s = (s_a, Inr ())
            \<and> solid_com im ca svdot res Js_ca
                 (s_a\<lparr>arrays := (arrays s_a)(res := (arrays s_a res)[ptr_phi_ed an := y ! ptr_phi_ed an - 0])\<rparr>)
                 = (s1, Inr ())
            \<and> hd Js_an = 0 \<and> last Js_an = - sdot_an
            \<and> hd Js_ca = 0 \<and> last Js_ca = - sdot_ca"
proof -
  from residuals_Inr_electrodes[OF assms] obtain s1 phi_ca a b where
    el: "electrodes im sv svdot res s = (s1, Inr (phi_ca, a, b))"
    by auto
  from electrodes_flux[OF el] obtain Js_an Js_ca s_a where
    fl: "radial_flux im (sim_an (sim_obj s)) (temp (sim_bat (sim_obj s)))
          (map (\<lambda>i. arrays s sv ! i) (r_ptr_Li_ed (sim_an (sim_obj s))))
          (scale (Li_max (sim_an (sim_obj s)))
             (map (\<lambda>i. arrays s sv ! i) (r_ptr_Li_ed (sim_an (sim_obj s))))) a = Inr Js_an"
      "radial_flux im (sim_ca (sim_obj s)) (temp (sim_bat (sim_obj s)))
          (map (\<lambda>i. arrays s sv ! i) (r_ptr_Li_ed (sim_ca (sim_obj s))))
          (scale (Li_max (sim_ca (sim_obj s)))
             (map (\<lambda>i. arrays s sv ! i) (r_ptr_Li_ed (sim_ca (sim_obj s))))) b = Inr Js_ca"
    and sc: "solid_com im (sim_an (sim_obj s)) svdot res Js_an s = (s_a, Inr ())"
      "solid_com im (sim_ca (sim_obj s)) svdot res Js_ca
          (s_a\<lparr>arrays := (arrays s_a)(res := (arrays s_a res)
               [ptr_phi_ed (sim_an (sim_obj s)) := arrays s sv ! ptr_phi_ed (sim_an (sim_obj s)) - 0])\<rparr>)
          = (s1, Inr ())"
    by blast
  from electrodes_Inr[OF el] have rc:
    "reaction_current (env_c im) (sim_an (sim_obj s)) (sim_el (sim_obj s)) (temp (sim_bat (sim_obj s)))
            (arrays s sv ! ptr_phi_ed (sim_an (sim_obj s))) (arrays s sv ! ptr_phi_el (sim_el (sim_obj s)))
            (map (\<lambda>i. arrays s sv ! i) (r_ptr_Li_ed (sim_an (sim_obj s)))) = Inr a"
    "reaction_current (env_c im) (sim_ca (sim_obj s)) (sim_el (sim_obj s)) (temp (sim_bat (sim_obj s)))
            (arrays s sv ! ptr_phi_ed (sim_ca (sim_obj s))) (arrays s sv ! ptr_phi_el (sim_el (sim_obj s)))
            (map (\<lambda>i. arrays s sv ! i) (r_ptr_Li_ed (sim_ca (sim_obj s)))) = Inr b"
    by simp_all
  from radial_flux_faces[OF fl(1)] radial_flux_faces[OF fl(2)] fl sc rc
  show ?thesis
    unfolding Let_def by blast
qed

theorem residuals_flux_faces_witness:
  "residuals demo_env 0 0 1 2 (demo_mem volt_y demo_sim volt_exp)
     = (fst (residuals demo_env 0 0 1 2 (demo_mem volt_y demo_sim volt_exp)), Inr (Some (0, volt_rate)))
   \<and> (let sim = sim_obj (demo_mem volt_y demo_sim volt_exp);
           an = sim_an sim; ca = sim_ca sim; el = sim_el sim;
           T = temp (sim_bat sim); y = arrays (demo_mem volt_y demo_sim volt_exp) 0;
           xs_an = map (\<lambda>i. y ! i) (r_ptr_Li_ed an);
           xs_ca = map (\<lambda>i. y ! i) (r_ptr_Li_ed ca)
       in \<exists>sdot_an sdot_ca Js_an Js_ca s_a s1.
            reaction_current (env_c demo_env) an el T (y ! ptr_phi_ed an) (y ! ptr_phi_el el) xs_an
              = Inr sdot_an
          \<and> reaction_current (env_c demo_env) ca el T (y ! ptr_phi_ed ca) (y ! ptr_phi_el el) xs_ca
              = Inr sdot_ca
          \<and> radial_flux demo_env an T xs_an (scale (Li_max an) xs_an) sdot_an = Inr Js_an
          \<and> radial_flux demo_env ca T xs_ca (scale (Li_max ca) xs_ca) sdot_ca = Inr Js_ca
          \<and> solid_com demo_env an 1 2 Js_an (demo_mem volt_y demo_sim volt_exp) = (s_a, Inr ())
          \<and> solid_com demo_env ca 1 2 Js_ca
               (s_a\<lparr>arrays := (arrays s_a)(2 := (arrays s_a 2)[ptr_phi_ed an := y ! ptr_phi_ed an - 0])\<rparr>)
               = (s1, Inr ())
          \<and> hd Js_an = 0 \<and> last Js_an = - sdot_an
          \<and> hd Js_ca = 0 \<and> last Js_ca = - sdot_ca)"
  by (intro conjI residuals_flux_faces[OF volt_run_pair] volt_run_pair)

text \<open>
  C4. For every memory, simulation, time and applied-value function \<open>v\<close>, the call of
  \<^verbatim>\<open>residuals\<close> with the experiment \<^verbatim>\<open>{mode: 'current', units: 'C', value: v}\<close> and the call
  with \<^verbatim>\<open>{mode: 'current', units: 'A', value: t -> v(t)*bat.cap}\<close> leave the same arrays
  (so the same residual vector), the same events and the same result, exceptions included.
\<close>

theorem current_units_equivalent:
  "let run_C = residuals im t sv svdot res
         \<lparr>arrays = h, sim_obj = sim,
          expt = \<lparr>exp_mode = Some ''current'', exp_units = Some ''C'', exp_value = Some v,
                  exp_events = ev\<rparr>\<rparr>;
       run_A = residuals im t sv svdot res
         \<lparr>arrays = h, sim_obj = sim,
          expt = \<lparr>exp_mode = Some ''current'', exp_units = Some ''A'',
                  exp_value = Some (\<lambda>t. v t * cap (sim_bat sim)), exp_events = ev\<rparr>\<rparr>
   in arrays (fst run_C) = arrays (fst run_A)
    \<and> exp_events (expt (fst run_C)) = exp_events (expt (fst run_A))
    \<and> sim_obj (fst run_C) = sim_obj (fst run_A)
    \<and> snd run_C = snd run_A"
proof -
  let ?s = "\<lparr>arrays = h, sim_obj = sim, expt = undefined\<rparr>"
  let ?eC = "\<lparr>exp_mode = Some ''current'', exp_units = Some ''C'', exp_value = Some v,
                  exp_events = ev\<rparr>"
  let ?eA = "\<lparr>exp_mode = Some ''current'', exp_units = Some ''A'',
                  exp_value = Some (\<lambda>t. v t * cap (sim_bat sim)), exp_events = ev\<rparr>"
  obtain s1 r1 where el: "electrodes im sv svdot res ?s = (s1, r1)"
    by (cases "electrodes im sv svdot res ?s")
  have elC: "electrodes im sv svdot res \<lparr>arrays = h, sim_obj = sim, expt = ?eC\<rparr> = (s1\<lparr>expt := ?eC\<rparr>, r1)"
    using electrodes_expt[where s = "?s" and e = "?eC", of im sv svdot res] el by simp
  have elA: "electrodes im sv svdot res \<lparr>arrays = h, sim_obj = sim, expt = ?eA\<rparr> = (s1\<lparr>expt := ?eA\<rparr>, r1)"
    using electrodes_expt[where s = "?s" and e = "?eA", of im sv svdot res] el by simp
  from electrodes_frame[OF el] have sim1: "sim_obj s1 = sim"
    by simp
  show ?thesis
  proof (cases r1)
    case (Inl e)
    then show ?thesis
      by (simp add: Let_def residuals_eq elC elA)
  next
    case (Inr q)
    obtain phi_ca a b where q: "q = (phi_ca, a, b)"
      by (cases q)
    show ?thesis
      by (simp add: Let_def residuals_eq elC elA Inr q boundary_conditions_eq sim1
          events_tracking_eq returns_eq)
  qed
qed

theorem current_units_equivalent_witness:
  "let run_C = residuals demo_env 0 0 1 2
         \<lparr>arrays = arrays (demo_mem volt_y demo_sim expr), sim_obj = demo_sim,
          expt = \<lparr>exp_mode = Some ''current'', exp_units = Some ''C'', exp_value = Some (\<lambda>t. 3),
                  exp_events = None\<rparr>\<rparr>;
       run_A = residuals demo_env 0 0 1 2
         \<lparr>arrays = arrays (demo_mem volt_y demo_sim expr), sim_obj = demo_sim,
          expt = \<lparr>exp_mode = Some ''current'', exp_units = Some ''A'',
                  exp_value = Some (\<lambda>t. (\<lambda>t. 3) t * cap (sim_bat demo_sim)), exp_events = None\<rparr>\<rparr>
   in arrays (fst run_C) = arrays (fst run_A)
    \<and> exp_events (expt (fst run_C)) = exp_events (expt (fst run_A))
    \<and> sim_obj (fst run_C) = sim_obj (fst run_A)
    \<and> snd run_C = snd run_A"
  by (rule current_units_equivalent)

text \<open>
  C5. Let the experiment hold the keys \<^verbatim>\<open>'mode'\<close>, \<^verbatim>\<open>'units'\<close> and \<^verbatim>\<open>'value'\<close> with a pair
  of mode and units that is none of current/\<^verbatim>\<open>'A'\<close>, current/\<^verbatim>\<open>'C'\<close>, voltage and power.
  Whenever the electrode sections return, \<^verbatim>\<open>residuals\<close> returns too, no branch of the chain is
  taken, and the arrays are as the electrode sections left them: the rows of the cathode
  potential and of the electrolyte potential, which the electrode sections do not write when
  the index map is one-to-one, keep the values of the caller's buffer.
\<close>

theorem unsupported_mode_falls_through:
  assumes "exp_mode (expt s) = Some m" and "exp_units (expt s) = Some u"
      and "exp_value (expt s) = Some v"
      and "\<not> (m = ''current'' \<and> u = ''A'')" and "\<not> (m = ''current'' \<and> u = ''C'')"
      and "m \<noteq> ''voltage''" and "m \<noteq> ''power''"
      and "electrodes im sv svdot res s = (s1, Inr (phi_ca, sdot_an, sdot_ca))"
  shows "let sim = sim_obj s; an = sim_an sim; ca = sim_ca sim; el = sim_el sim
         in \<exists>s' out. residuals im t sv svdot res s = (s', Inr out)
              \<and> arrays s' = arrays s1
              \<and> (ptr_phi_ed ca \<notin> set (r_ptr_Li_ed an) \<and> ptr_phi_ed ca \<noteq> ptr_phi_ed an
                   \<and> ptr_phi_ed ca \<notin> set (r_ptr_Li_ed ca)
                 \<longrightarrow> arrays s' res ! ptr_phi_ed ca = arrays s res ! ptr_phi_ed ca)
              \<and> (ptr_phi_el el \<notin> set (r_ptr_Li_ed an) \<and> ptr_phi_el el \<noteq> ptr_phi_ed an
                   \<and> ptr_phi_el el \<notin> set (r_ptr_Li_ed ca)
                 \<longrightarrow> arrays s' res ! ptr_phi_el el = arrays s res ! ptr_phi_el el)"
proof -
  note f1 = electrodes_frame[OF assms(8)]
  from assms f1 show ?thesis
    by (auto simp: Let_def residuals_eq boundary_conditions_eq events_tracking_eq returns_eq)
qed

theorem unsupported_mode_falls_through_witness:
  "exp_mode (expt (demo_mem demo_y demo_sim odd_exp)) = Some ''current''
   \<and> exp_units (expt (demo_mem demo_y demo_sim odd_exp)) = Some ''mA''
   \<and> exp_value (expt (demo_mem demo_y demo_sim odd_exp)) = Some (\<lambda>t. 1)
   \<and> \<not> (''current'' = ''current'' \<and> ''mA'' = ''A'') \<and> \<not> (''current'' = ''current'' \<and> ''mA'' = ''C'')
   \<and> ''current'' \<noteq> ''voltage'' \<and> ''current'' \<noteq> ''power''
   \<and> electrodes demo_env 0 1 2 (demo_mem demo_y demo_sim odd_exp)
       = (fst (electrodes demo_env 0 1 2 (demo_mem demo_y demo_sim odd_exp)), Inr (0, 0, 0))
   \<and> (let sim = sim_obj (demo_mem demo_y demo_sim odd_exp);
           an = sim_an sim; ca = sim_ca sim; el = sim_el sim
       in \<exists>s' out. residuals demo_env 0 0 1 2 (demo_mem demo_y demo_sim odd_exp) = (s', Inr out)
            \<and> arrays s' = arrays (fst (electrodes demo_env 0 1 2 (demo_mem demo_y demo_sim odd_exp)))
            \<and> (ptr_phi_ed ca \<notin> set (r_ptr_Li_ed an) \<and> ptr_phi_ed ca \<noteq> ptr_phi_ed an
                 \<and> ptr_phi_ed ca \<notin> set (r_ptr_Li_ed ca)
               \<longrightarrow> arrays s' 2 ! ptr_phi_ed ca = arrays (demo_mem demo_y demo_sim odd_exp) 2 ! ptr_phi_ed ca)
            \<and> (ptr_phi_el el \<notin> set (r_ptr_Li_ed an) \<and> ptr_phi_el el \<noteq> ptr_phi_ed an
                 \<and> ptr_phi_el el \<notin> set (r_ptr_Li_ed ca)
               \<longrightarrow> arrays s' 2 ! ptr_phi_el el = arrays (demo_mem demo_y demo_sim odd_exp) 2 ! ptr_phi_el el))"
proof -
  have m: "exp_mode (expt (demo_mem demo_y demo_sim odd_exp)) = Some ''current''"
    and u: "exp_units (expt (demo_mem demo_y demo_sim odd_exp)) = Some ''mA''"
    and v: "exp_value (expt (demo_mem demo_y demo_sim odd_exp)) = Some (\<lambda>t. 1)"
    by (simp_all add: demo_defs)
  have n1: "\<not> (''current'' = ''current'' \<and> ''mA'' = ''A'')"
    and n2: "\<not> (''current'' = ''current'' \<and> ''mA'' = ''C'')"
    and n3: "''current'' \<noteq> ''voltage''" and n4: "''current'' \<noteq> ''power''"
    by simp_all
  show ?thesis
    by (intro conjI unsupported_mode_falls_through[OF m u v n1 n2 n3 n4 demo_electrodes]
        m u v n1 n2 n3 n4 demo_electrodes)
qed

text \<open>
  C6. For every input, the call of \<^verbatim>\<open>residuals\<close> with the flag \<^verbatim>\<open>post\<close> set and the call
  with the flag unset leave the same arrays and the same experiment (so the same events),
  and raise the same exception if any; when they return, the result is \<^verbatim>\<open>None\<close> with the
  flag unset and the pair of the anode and cathode reaction rates, without the residual
  array, with the flag set.
\<close>

theorem post_flag_changes_result_only:
  "let run = (\<lambda>flag. residuals im t sv svdot res (s\<lparr>sim_obj := (sim_obj s)\<lparr>flag_post := flag\<rparr>\<rparr>));
       sim = sim_obj s; an = sim_an sim; ca = sim_ca sim; el = sim_el sim;
       T = temp (sim_bat sim); y = arrays s sv
   in arrays (fst (run True)) = arrays (fst (run False))
    \<and> expt (fst (run True)) = expt (fst (run False))
    \<and> (case snd (run True) of
         Inl e \<Rightarrow> snd (run False) = Inl e
       | Inr out \<Rightarrow> snd (run False) = Inr None
           \<and> (\<exists>sdot_an sdot_ca. out = Some (sdot_an, sdot_ca)
                \<and> reaction_current (env_c im) an el T (y ! ptr_phi_ed an) (y ! ptr_phi_el el)
                     (map (\<lambda>i. y ! i) (r_ptr_Li_ed an)) = Inr sdot_an
                \<and> reaction_current (env_c im) ca el T (y ! ptr_phi_ed ca) (y ! ptr_phi_el el)
                     (map (\<lambda>i. y ! i) (r_ptr_Li_ed ca)) = Inr sdot_ca))"
proof -
  obtain s1 r1 where el: "electrodes im sv svdot res s = (s1, r1)"
    by (cases "electrodes im sv svdot res s")
  show ?thesis
  proof (cases r1)
    case (Inl e)
    with el show ?thesis
      by (simp add: Let_def residuals_flag)
  next
    case (Inr q)
    obtain phi_ca a b where q: "q = (phi_ca, a, b)"
      by (cases q)
    obtain s2 r2 where bc: "boundary_conditions im t res phi_ca a b s1 = (s2, r2)"
      by (cases "boundary_conditions im t res phi_ca a b s1")
    from electrodes_Inr[OF el[unfolded Inr q]] el Inr q bc show ?thesis
      by (cases r2) (auto simp: Let_def residuals_flag events_tracking_eq)
  qed
qed

theorem post_flag_changes_result_only_witness:
  "let run = (\<lambda>flag. residuals demo_env 0 0 1 2
                 ((demo_mem volt_y demo_sim volt_exp)
                    \<lparr>sim_obj := (sim_obj (demo_mem volt_y demo_sim volt_exp))\<lparr>flag_post := flag\<rparr>\<rparr>));
       sim = sim_obj (demo_mem volt_y demo_sim volt_exp);
       an = sim_an sim; ca = sim_ca sim; el = sim_el sim;
       T = temp (sim_bat sim); y = arrays (demo_mem volt_y demo_sim volt_exp) 0
   in arrays (fst (run True)) = arrays (fst (run False))
    \<and> expt (fst (run True)) = expt (fst (run False))
    \<and> (case snd (run True) of
         Inl e \<Rightarrow> snd (run False) = Inl e
       | Inr out \<Rightarrow> snd (run False) = Inr None
           \<and> (\<exists>sdot_an sdot_ca. out = Some (sdot_an, sdot_ca)
                \<and> reaction_current (env_c demo_env) an el T (y ! ptr_phi_ed an) (y ! ptr_phi_el el)
                     (map (\<lambda>i. y ! i) (r_ptr_Li_ed an)) = Inr sdot_an
                \<and> reaction_current (env_c demo_env) ca el T (y ! ptr_phi_ed ca) (y ! ptr_phi_el el)
                     (map (\<lambda>i. y ! i) (r_ptr_Li_ed ca)) = Inr sdot_ca))"
  by (rule post_flag_changes_result_only)

text \<open>
  C7. A call of \<^verbatim>\<open>residuals\<close>, returning or raising, leaves the simulation object and every
  array other than \<open>res\<close> as they were, so \<open>sv\<close> and \<open>svdot\<close> when they are not the array
  \<open>res\<close> itself; the array \<open>res\<close> keeps its length; the keys \<^verbatim>\<open>'mode'\<close>, \<^verbatim>\<open>'units'\<close> and
  \<^verbatim>\<open>'value'\<close> of the experiment keep their values. A returning call sets \<^verbatim>\<open>exp['events']\<close> to
  a dictionary with exactly the keys \<^verbatim>\<open>time_s\<close>, \<^verbatim>\<open>time_min\<close>, \<^verbatim>\<open>time_h\<close>, \<^verbatim>\<open>current_A\<close>,
  \<^verbatim>\<open>current_C\<close>, \<^verbatim>\<open>voltage_V\<close>, \<^verbatim>\<open>power_W\<close>, where \<open>time_min = time_s / 60\<close>,
  \<open>time_h = time_s / 3600\<close>, \<open>current_C = current_A / bat.cap\<close> and
  \<open>power_W = current_A * voltage_V\<close>; a raising call leaves the events as they were.
\<close>

theorem residuals_frame:
  assumes "residuals im t sv svdot res s = (s', r)"
  shows "sim_obj s' = sim_obj s
       \<and> (sv \<noteq> res \<longrightarrow> arrays s' sv = arrays s sv)
       \<and> (svdot \<noteq> res \<longrightarrow> arrays s' svdot = arrays s svdot)
       \<and> (\<forall>a. a \<noteq> res \<longrightarrow> arrays s' a = arrays s a)
       \<and> length (arrays s' res) = length (arrays s res)
       \<and> exp_mode (expt s') = exp_mode (expt s)
       \<and> exp_units (expt s') = exp_units (expt s)
       \<and> exp_value (expt s') = exp_value (expt s)
       \<and> (case r of
            Inl e \<Rightarrow> exp_events (expt s') = exp_events (expt s)
          | Inr out \<Rightarrow>
              (\<exists>time_s current_A voltage_V.
                 exp_events (expt s') = Some
                   [(''time_s'', time_s),
                    (''time_min'', time_s / 60),
                    (''time_h'', time_s / 3600),
                    (''current_A'', current_A),
                    (''current_C'', current_A / cap (sim_bat (sim_obj s))),
                    (''voltage_V'', voltage_V),
                    (''power_W'', current_A * voltage_V)]
               \<and> time_s = sim_t0 (sim_obj s) + t
               \<and> voltage_V = arrays s sv ! ptr_phi_ed (sim_ca (sim_obj s))))"
proof -
  obtain s1 r1 where el: "electrodes im sv svdot res s = (s1, r1)"
    by (cases "electrodes im sv svdot res s")
  note f1 = electrodes_frame[OF el]
  show ?thesis
  proof (cases r1)
    case (Inl e)
    with el assms f1 show ?thesis
      by (auto simp: residuals_eq)
  next
    case (Inr q)
    obtain phi_ca a b where q: "q = (phi_ca, a, b)"
      by (cases q)
    obtain s2 r2 where bc: "boundary_conditions im t res phi_ca a b s1 = (s2, r2)"
      by (cases "boundary_conditions im t res phi_ca a b s1")
    note f2 = boundary_conditions_frame[OF bc]
    note e1 = electrodes_Inr[OF el[unfolded Inr q]]
    show ?thesis
    proof (cases r2)
      case (Inl e)
      with el Inr q bc assms f1 f2 show ?thesis
        by (auto simp: residuals_eq)
    next
      case r2: (Inr w)
      from boundary_conditions_Inr[OF bc[unfolded r2]] el Inr q bc r2 assms f1 f2 e1 show ?thesis
        by (auto simp: residuals_eq events_tracking_eq returns_eq)
    qed
  qed
qed

theorem residuals_frame_witness:
  "residuals demo_env 0 0 1 2 (demo_mem volt_y demo_sim volt_exp)
     = (fst (residuals demo_env 0 0 1 2 (demo_mem volt_y demo_sim volt_exp)), Inr (Some (0, volt_rate)))
   \<and> sim_obj (fst (residuals demo_env 0 0 1 2 (demo_mem volt_y demo_sim volt_exp))) = demo_sim
   \<and> arrays (fst (residuals demo_env 0 0 1 2 (demo_mem volt_y demo_sim volt_exp))) 0 = volt_y
   \<and> arrays (fst (residuals demo_env 0 0 1 2 (demo_mem volt_y demo_sim volt_exp))) 1
       = [0, 0, 0, 0, 0, 0, 0]
   \<and> length (arrays (fst (residuals demo_env 0 0 1 2 (demo_mem volt_y demo_sim volt_exp))) 2) = 7
   \<and> exp_mode (expt (fst (residuals demo_env 0 0 1 2 (demo_mem volt_y demo_sim volt_exp))))
       = Some ''voltage''
   \<and> (\<exists>current_A.
        exp_events (expt (fst (residuals demo_env 0 0 1 2 (demo_mem volt_y demo_sim volt_exp)))) = Some
          [(''time_s'', 0),
           (''time_min'', 0 / 60),
           (''time_h'', 0 / 3600),
           (''current_A'', current_A),
           (''current_C'', current_A / 2),
           (''voltage_V'', 1),
           (''power_W'', current_A * 1)])"
proof -
  have sel: "sim_obj (demo_mem volt_y demo_sim volt_exp) = demo_sim"
    "arrays (demo_mem volt_y demo_sim volt_exp) 0 = volt_y"
    "arrays (demo_mem volt_y demo_sim volt_exp) (Suc 0) = [0, 0, 0, 0, 0, 0, 0]"
    "length (arrays (demo_mem volt_y demo_sim volt_exp) 2) = 7"
    "exp_mode (expt (demo_mem volt_y demo_sim volt_exp)) = Some ''voltage''"
    "sim_t0 demo_sim = 0" "cap (sim_bat demo_sim) = 2"
    "volt_y ! ptr_phi_ed (sim_ca demo_sim) = 1"
    by (simp_all add: demo_defs)
  from residuals_frame[OF volt_run_pair] volt_run_pair show ?thesis
    by (simp add: sel)
qed

text \<open>
  C8, as stated, fails at a component below \<open>- 1\<close>: for the component \<open>- 2\<close> the perturbation
  is the floor \<open>1e-6\<close>, not \<open>max(1e-6, 1e-6 * |- 2|) = 2e-6\<close>.
\<close>

theorem perturbation_not_absolute:
  "perturbed [1 / 2, 1 / 2, 0, - 2, 1 / 2, 1 / 2, 2] 3
     = Inr [1 / 2, 1 / 2, 0, - 2 + 1 / 10 ^ 6, 1 / 2, 1 / 2, 2]
   \<and> (- 2 + 1 / 10 ^ 6) - (- 2) \<noteq> max (1 / 10 ^ 6) (1 / 10 ^ 6 * \<bar>- 2 :: real\<bar>)"
  by (simp add: perturbed_def bind_e_def getitem_def setitem_def)

text \<open>
  C8, as amended. In \<^verbatim>\<open>bandwidth\<close>, for every column index \<open>j\<close>, the perturbed copy of \<open>y\<close>
  (and likewise of \<open>y'\<close>) differs from it at \<open>j\<close> only, and the perturbation applied there is
  \<open>max(1e-6, 1e-6 * y[j])\<close>, of the signed component and not of its absolute value. The step is
  at least \<open>1e-6\<close> and never zero, also when the component is 0 or negative; it is the claimed
  \<open>max(1e-6, 1e-6 * |y[j]|)\<close> when the component is at least \<open>- 1\<close>, and the floor \<open>1e-6\<close>
  when the component is at most 1.
\<close>

theorem perturbation_step:
  assumes "perturbed xs j = Inr ys"
  shows "j < length xs \<and> length ys = length xs
       \<and> ys ! j - xs ! j = max (1 / 10 ^ 6) (1 / 10 ^ 6 * xs ! j)
       \<and> 1 / 10 ^ 6 \<le> ys ! j - xs ! j
       \<and> ys ! j \<noteq> xs ! j
       \<and> (\<forall>k. k \<noteq> j \<longrightarrow> ys ! k = xs ! k)
       \<and> (- 1 \<le> xs ! j \<longrightarrow> ys ! j - xs ! j = max (1 / 10 ^ 6) (1 / 10 ^ 6 * \<bar>xs ! j\<bar>))
       \<and> (xs ! j \<le> 1 \<longrightarrow> ys ! j - xs ! j = 1 / 10 ^ 6)"
  using assms
  by (auto simp: perturbed_def bind_e_Inr getitem_def setitem_def max_def abs_if split: if_splits)

theorem perturbation_step_witness:
  "perturbed neg_y 3 = Inr [1 / 2, 1 / 2, 0, - 2 + 1 / 10 ^ 6, 1 / 2, 1 / 2, 2]
   \<and> 3 < length neg_y
   \<and> length ([1 / 2, 1 / 2, 0, - 2 + 1 / 10 ^ 6, 1 / 2, 1 / 2, 2] :: real list) = length neg_y
   \<and> (- 2 + 1 / 10 ^ 6) - neg_y ! 3 = max (1 / 10 ^ 6) (1 / 10 ^ 6 * neg_y ! 3)
   \<and> 1 / 10 ^ 6 \<le> (- 2 + 1 / 10 ^ 6) - neg_y ! 3
   \<and> - 2 + 1 / 10 ^ 6 \<noteq> neg_y ! 3
   \<and> neg_y ! 3 \<le> 1
   \<and> (- 2 + 1 / 10 ^ 6) - neg_y ! 3 = 1 / 10 ^ 6"
proof -
  have le: "neg_y ! 3 \<le> 1"
    by (simp add: neg_y_def)
  from perturbation_step[OF neg_y_perturbed] le neg_y_perturbed show ?thesis
    by simp
qed

text \<open>
  C9. When \<^verbatim>\<open>bandwidth\<close> returns \<open>(lband, uband, j_pat)\<close>, the probed Jacobian \<open>jac\<close> is an
  \<open>N \<times> N\<close> matrix, \<open>lband\<close> is the largest distance \<open>i - j\<close> over the nonzero entries
  \<open>(i, j)\<close> with \<open>j < i\<close> (it bounds them all and is attained, or is 0), \<open>uband\<close> is the
  largest distance \<open>j - i\<close> over the nonzero entries with \<open>i \<le> j\<close> (likewise), and the
  entry \<open>(i, j)\<close> of \<open>j_pat\<close> is 1 when the entry \<open>(i, j)\<close> of \<open>jac\<close> is not zero and 0
  otherwise.
\<close>

theorem bandwidth_bands_and_pattern:
  assumes "bandwidth im sim = Inr (lband, uband, j_pat)"
  shows "\<exists>jac. jacobian im sim = Inr jac
     \<and> (let N = length (sim_sv0 sim) in
          length jac = N \<and> (\<forall>i<N. length (jac ! i) = N)
        \<and> (\<forall>i<N. \<forall>j<i. jac ! i ! j \<noteq> 0 \<longrightarrow> i - j \<le> lband)
        \<and> (lband = 0 \<or> (\<exists>i<N. \<exists>j<i. jac ! i ! j \<noteq> 0 \<and> i - j = lband))
        \<and> (\<forall>i<N. \<forall>j<N. i \<le> j \<and> jac ! i ! j \<noteq> 0 \<longrightarrow> j - i \<le> uband)
        \<and> (uband = 0 \<or> (\<exists>i<N. \<exists>j<N. i \<le> j \<and> jac ! i ! j \<noteq> 0 \<and> j - i = uband))
        \<and> length j_pat = N
        \<and> (\<forall>i<N. length (j_pat ! i) = N
              \<and> (\<forall>j<N. j_pat ! i ! j = (if jac ! i ! j \<noteq> 0 then 1 else 0))))"
proof -
  from assms obtain jac where jac: "jacobian im sim = Inr jac"
    and rest: "(let (lband, uband) = find_bands jac [0..<length jac] (0, 0); j_pat = pattern jac
                in Inr (lband, uband, j_pat)) = (Inr (lband, uband, j_pat) :: error + _)"
    by (auto simp: bandwidth_def bind_e_Inr)
  obtain l u where fb0: "find_bands jac [0..<length jac] (0, 0) = (l, u)"
    by (cases "find_bands jac [0..<length jac] (0, 0)")
  with rest have fb: "find_bands jac [0..<length jac] (0, 0) = (lband, uband)"
    and pat: "j_pat = pattern jac"
    by (simp_all add: Let_def)
  let ?N = "length (sim_sv0 sim)"
  from jacobian_square[OF jac] have sq: "square ?N jac" .
  then have len: "length jac = ?N" and rows: "\<forall>i<?N. length (jac ! i) = ?N"
    by (auto simp: square_def list_all_iff)
  have "\<forall>i\<in>set [0..<length jac]. i < ?N"
    using len by simp
  note fc = find_bands_char[OF sq this fb, unfolded len]
  have b1: "\<forall>i<?N. \<forall>j<i. jac ! i ! j \<noteq> 0 \<longrightarrow> i - j \<le> lband"
    using fc by simp
  have b2: "lband = 0 \<or> (\<exists>i<?N. \<exists>j<i. jac ! i ! j \<noteq> 0 \<and> i - j = lband)"
    using fc by (simp add: Bex_def)
  have b3: "\<forall>i<?N. \<forall>j<?N. i \<le> j \<and> jac ! i ! j \<noteq> 0 \<longrightarrow> j - i \<le> uband"
    using fc by simp
  have b4: "uband = 0 \<or> (\<exists>i<?N. \<exists>j<?N. i \<le> j \<and> jac ! i ! j \<noteq> 0 \<and> j - i = uband)"
    using fc by (simp add: Bex_def)
  have p1: "length j_pat = ?N"
    using pat len by (simp add: pattern_def)
  have p2: "\<forall>i<?N. length (j_pat ! i) = ?N
              \<and> (\<forall>j<?N. j_pat ! i ! j = (if jac ! i ! j \<noteq> 0 then 1 else 0))"
    using pattern_nth[OF sq] pat by simp
  note bands = b1 b2 b3 b4 and p = p1 p2
  show ?thesis
    unfolding Let_def
    by (intro exI[of _ jac] conjI jac len rows b1 b2 b3 b4 p1 p2)
qed

theorem bandwidth_bands_and_pattern_witness:
  "bandwidth demo_env inert_sim =
     Inr (1, 1,
          ([[1, 1, 0, 0, 0, 0, 0], [1, 1, 0, 0, 0, 0, 0], [0, 0, 1, 0, 0, 0, 0],
           [0, 0, 0, 0, 0, 0, 0], [0, 0, 0, 0, 1, 1, 0], [0, 0, 0, 0, 1, 1, 0],
           [0, 0, 0, 0, 0, 0, 0]] :: real list list))
   \<and> (\<exists>jac. jacobian demo_env inert_sim = Inr jac
     \<and> (let N = length (sim_sv0 inert_sim) in
          length jac = N \<and> (\<forall>i<N. length (jac ! i) = N)
        \<and> (\<forall>i<N. \<forall>j<i. jac ! i ! j \<noteq> 0 \<longrightarrow> i - j \<le> 1)
        \<and> ((1 :: nat) = 0 \<or> (\<exists>i<N. \<exists>j<i. jac ! i ! j \<noteq> 0 \<and> i - j = 1))
        \<and> (\<forall>i<N. \<forall>j<N. i \<le> j \<and> jac ! i ! j \<noteq> 0 \<longrightarrow> j - i \<le> 1)
        \<and> ((1 :: nat) = 0 \<or> (\<exists>i<N. \<exists>j<N. i \<le> j \<and> jac ! i ! j \<noteq> 0 \<and> j - i = 1))
        \<and> length ([[1, 1, 0, 0, 0, 0, 0], [1, 1, 0, 0, 0, 0, 0], [0, 0, 1, 0, 0, 0, 0],
           [0, 0, 0, 0, 0, 0, 0], [0, 0, 0, 0, 1, 1, 0], [0, 0, 0, 0, 1, 1, 0],
           [0, 0, 0, 0, 0, 0, 0]] :: real list list) = N
        \<and> (\<forall>i<N. length (([[1, 1, 0, 0, 0, 0, 0], [1, 1, 0, 0, 0, 0, 0], [0, 0, 1, 0, 0, 0, 0],
           [0, 0, 0, 0, 0, 0, 0], [0, 0, 0, 0, 1, 1, 0], [0, 0, 0, 0, 1, 1, 0],
           [0, 0, 0, 0, 0, 0, 0]] :: real list list) ! i) = N
              \<and> (\<forall>j<N. ([[1, 1, 0, 0, 0, 0, 0], [1, 1, 0, 0, 0, 0, 0], [0, 0, 1, 0, 0, 0, 0],
           [0, 0, 0, 0, 0, 0, 0], [0, 0, 0, 0, 1, 1, 0], [0, 0, 0, 0, 1, 1, 0],
           [0, 0, 0, 0, 0, 0, 0]] :: real list list) ! i ! j = (if jac ! i ! j \<noteq> 0 then 1 else 0)))))"
  by (rule conjI[OF inert_bandwidth bandwidth_bands_and_pattern[OF inert_bandwidth]])

text \<open>
  C10. \<^verbatim>\<open>bandwidth\<close> takes the simulation only. When it returns, the pattern and the bands are
  those of the probed Jacobian, and every entry \<open>(i, j)\<close> of that Jacobian is
  \<open>(res_0[i] - r1[i]) + (res_0[i] - r2[i])\<close>, where \<open>res_0\<close>, \<open>r1\<close> and \<open>r2\<close> are the
  residual vectors that \<^verbatim>\<open>residuals\<close> writes at time 0 into a buffer of zeros under the fixed
  experiment \<^verbatim>\<open>{mode: 'current', units: 'C', value: t -> 0}\<close>, for the stored vectors
  \<^verbatim>\<open>sim._sv0\<close> and \<^verbatim>\<open>sim._svdot0\<close>, for \<^verbatim>\<open>sim._sv0\<close> perturbed at \<open>j\<close>, and for
  \<^verbatim>\<open>sim._svdot0\<close> perturbed at \<open>j\<close>. The two boundary rows of the baseline are the
  current-mode rows with a zero applied current.
\<close>

theorem bandwidth_probes_initial_state:
  assumes "bandwidth im sim = Inr (lband, uband, j_pat)"
  shows "let N = length (sim_sv0 sim); sv = sim_sv0 sim; svdot = sim_svdot0 sim;
             zeros = replicate N 0;
             an = sim_an sim; ca = sim_ca sim; el = sim_el sim; bat = sim_bat sim
         in exp_mode expr = Some ''current'' \<and> exp_units expr = Some ''C''
          \<and> exp_value expr = Some (\<lambda>t. 0)
          \<and> (\<exists>jac res_0 e_0 sdot_an sdot_ca.
                jacobian im sim = Inr jac \<and> j_pat = pattern jac
              \<and> find_bands jac [0..<length jac] (0, 0) = (lband, uband)
              \<and> call_residuals im 0 sv svdot zeros sim expr = Inr (res_0, e_0)
              \<and> reaction_current (env_c im) an el (temp bat) (sv ! ptr_phi_ed an) (sv ! ptr_phi_el el)
                   (map (\<lambda>i. sv ! i) (r_ptr_Li_ed an)) = Inr sdot_an
              \<and> reaction_current (env_c im) ca el (temp bat) (sv ! ptr_phi_ed ca) (sv ! ptr_phi_el el)
                   (map (\<lambda>i. sv ! i) (r_ptr_Li_ed ca)) = Inr sdot_ca
              \<and> res_0 ! ptr_phi_el el
                   = sdot_an * A_s an * thick an * c_F (env_c im) + 0 * cap bat / area bat
              \<and> (ptr_phi_ed ca \<noteq> ptr_phi_el el \<longrightarrow>
                   res_0 ! ptr_phi_ed ca
                     = sdot_ca * A_s ca * thick ca * c_F (env_c im) - 0 * cap bat / area bat)
              \<and> (\<forall>j<N. \<exists>dsv r1 e1 dsvdot r2 e2.
                    perturbed sv j = Inr dsv
                  \<and> call_residuals im 0 dsv svdot zeros sim expr = Inr (r1, e1)
                  \<and> perturbed svdot j = Inr dsvdot
                  \<and> call_residuals im 0 sv dsvdot zeros sim expr = Inr (r2, e2)
                  \<and> (\<forall>i<N. jac ! i ! j = (res_0 ! i - r1 ! i) + (res_0 ! i - r2 ! i))))"
proof -
  from assms obtain jac where jac: "jacobian im sim = Inr jac"
    and rest: "(let (lband, uband) = find_bands jac [0..<length jac] (0, 0); j_pat = pattern jac
                in Inr (lband, uband, j_pat)) = (Inr (lband, uband, j_pat) :: error + _)"
    by (auto simp: bandwidth_def bind_e_Inr)
  obtain l u where fb0: "find_bands jac [0..<length jac] (0, 0) = (l, u)"
    by (cases "find_bands jac [0..<length jac] (0, 0)")
  with rest have fb: "find_bands jac [0..<length jac] (0, 0) = (lband, uband)"
    and pat: "j_pat = pattern jac"
    by (simp_all add: Let_def)
  from jacobian_cols[OF jac] obtain res_0 e_0 where
    c0: "call_residuals im 0 (sim_sv0 sim) (sim_svdot0 sim) (replicate (length (sim_sv0 sim)) 0) sim expr
           = Inr (res_0, e_0)" and
    cols: "\<forall>j<length (sim_sv0 sim). \<exists>dsv r1 e1 dsvdot r2 e2.
          perturbed (sim_sv0 sim) j = Inr dsv
        \<and> call_residuals im 0 dsv (sim_svdot0 sim) (replicate (length (sim_sv0 sim)) 0) sim expr
            = Inr (r1, e1)
        \<and> perturbed (sim_svdot0 sim) j = Inr dsvdot
        \<and> call_residuals im 0 (sim_sv0 sim) dsvdot (replicate (length (sim_sv0 sim)) 0) sim expr
            = Inr (r2, e2)
        \<and> (\<forall>i<length (sim_sv0 sim). jac ! i ! j = (res_0 ! i - r1 ! i) + (res_0 ! i - r2 ! i))"
    by blast
  from call_residuals_current_rows[OF c0] obtain sdot_an sdot_ca where
    rows: "reaction_current (env_c im) (sim_an sim) (sim_el sim) (temp (sim_bat sim))
         (sim_sv0 sim ! ptr_phi_ed (sim_an sim)) (sim_sv0 sim ! ptr_phi_el (sim_el sim))
         (map (\<lambda>i. sim_sv0 sim ! i) (r_ptr_Li_ed (sim_an sim))) = Inr sdot_an"
      "reaction_current (env_c im) (sim_ca sim) (sim_el sim) (temp (sim_bat sim))
         (sim_sv0 sim ! ptr_phi_ed (sim_ca sim)) (sim_sv0 sim ! ptr_phi_el (sim_el sim))
         (map (\<lambda>i. sim_sv0 sim ! i) (r_ptr_Li_ed (sim_ca sim))) = Inr sdot_ca"
      "res_0 ! ptr_phi_el (sim_el sim)
         = sdot_an * A_s (sim_an sim) * thick (sim_an sim) * c_F (env_c im)
           + 0 * cap (sim_bat sim) / area (sim_bat sim)"
      "ptr_phi_ed (sim_ca sim) \<noteq> ptr_phi_el (sim_el sim) \<longrightarrow>
          res_0 ! ptr_phi_ed (sim_ca sim)
            = sdot_ca * A_s (sim_ca sim) * thick (sim_ca sim) * c_F (env_c im)
              - 0 * cap (sim_bat sim) / area (sim_bat sim)"
    by blast
  have ex: "exp_mode expr = Some ''current''" "exp_units expr = Some ''C''"
    "exp_value expr = Some (\<lambda>t. 0)"
    by (simp_all add: expr_def)
  show ?thesis
    unfolding Let_def
    by (intro conjI ex exI[of _ jac] exI[of _ res_0] exI[of _ e_0] exI[of _ sdot_an]
        exI[of _ sdot_ca] jac pat fb c0 rows cols)
qed

theorem bandwidth_probes_initial_state_witness:
  "bandwidth demo_env inert_sim =
     Inr (1, 1,
          ([[1, 1, 0, 0, 0, 0, 0], [1, 1, 0, 0, 0, 0, 0], [0, 0, 1, 0, 0, 0, 0],
           [0, 0, 0, 0, 0, 0, 0], [0, 0, 0, 0, 1, 1, 0], [0, 0, 0, 0, 1, 1, 0],
           [0, 0, 0, 0, 0, 0, 0]] :: real list list))
   \<and> (let N = length (sim_sv0 inert_sim); sv = sim_sv0 inert_sim; svdot = sim_svdot0 inert_sim;
             zeros = replicate N 0;
             an = sim_an inert_sim; ca = sim_ca inert_sim; el = sim_el inert_sim; bat = sim_bat inert_sim
         in exp_mode expr = Some ''current'' \<and> exp_units expr = Some ''C''
          \<and> exp_value expr = Some (\<lambda>t. 0)
          \<and> (\<exists>jac res_0 e_0 sdot_an sdot_ca.
                jacobian demo_env inert_sim = Inr jac \<and> ([[1, 1, 0, 0, 0, 0, 0], [1, 1, 0, 0, 0, 0, 0], [0, 0, 1, 0, 0, 0, 0],
           [0, 0, 0, 0, 0, 0, 0], [0, 0, 0, 0, 1, 1, 0], [0, 0, 0, 0, 1, 1, 0],
           [0, 0, 0, 0, 0, 0, 0]] :: real list list) = pattern jac
              \<and> find_bands jac [0..<length jac] (0, 0) = (1, 1)
              \<and> call_residuals demo_env 0 sv svdot zeros inert_sim expr = Inr (res_0, e_0)
              \<and> reaction_current (env_c demo_env) an el (temp bat) (sv ! ptr_phi_ed an) (sv ! ptr_phi_el el)
                   (map (\<lambda>i. sv ! i) (r_ptr_Li_ed an)) = Inr sdot_an
              \<and> reaction_current (env_c demo_env) ca el (temp bat) (sv ! ptr_phi_ed ca) (sv ! ptr_phi_el el)
                   (map (\<lambda>i. sv ! i) (r_ptr_Li_ed ca)) = Inr sdot_ca
              \<and> res_0 ! ptr_phi_el el
                   = sdot_an * A_s an * thick an * c_F (env_c demo_env) + 0 * cap bat / area bat
              \<and> (ptr_phi_ed ca \<noteq> ptr_phi_el el \<longrightarrow>
                   res_0 ! ptr_phi_ed ca
                     = sdot_ca * A_s ca * thick ca * c_F (env_c demo_env) - 0 * cap bat / area bat)
              \<and> (\<forall>j<N. \<exists>dsv r1 e1 dsvdot r2 e2.
                    perturbed sv j = Inr dsv
                  \<and> call_residuals demo_env 0 dsv svdot zeros inert_sim expr = Inr (r1, e1)
                  \<and> perturbed svdot j = Inr dsvdot
                  \<and> call_residuals demo_env 0 sv dsvdot zeros inert_sim expr = Inr (r2, e2)
                  \<and> (\<forall>i<N. jac ! i ! j = (res_0 ! i - r1 ! i) + (res_0 ! i - r2 ! i)))))"
  by (rule conjI[OF inert_bandwidth bandwidth_probes_initial_state[OF inert_bandwidth]])

end
